theory Spec2Isabelle
  imports Main "HOL-Library.Word" "HOL-Library.Sublist"
begin

section \<open>Values, errors and promise outcomes\<close>

text \<open>
  A JavaScript value as the client handles it. An object is its list of own properties in
  insertion order (the order a JSON serialisation walks); numbers are the integers used
  here. \<open>JUndefined\<close> is JavaScript's \<open>undefined\<close>, \<open>JNull\<close> its \<open>null\<close>.
\<close>

datatype jsval =
    JUndefined
  | JNull
  | JBool bool
  | JNum int
  | JStr string
  | JArr "jsval list"
  | JObj "(string \<times> jsval) list"

text \<open>The truthiness test behind \<open>if (k)\<close>, \<open>!arg\<close> and \<open>a && b\<close>.\<close>

fun truthy :: "jsval \<Rightarrow> bool" where
  "truthy JUndefined = False"
| "truthy JNull = False"
| "truthy (JBool b) = b"
| "truthy (JNum n) = (n \<noteq> 0)"
| "truthy (JStr s) = (s \<noteq> [])"
| "truthy (JArr xs) = True"
| "truthy (JObj ps) = True"

text \<open>A \<open>Uint8Array\<close>.\<close>

type_synonym bytes = "8 word list"

text \<open>
  What can be thrown or passed to \<open>reject\<close>: a \<open>grpc.ServiceError\<close> of the transport
  (status code and details), an exception of the codec, and an invalid-argument error of a
  constructor.
\<close>

datatype error =
    ServiceError nat string
  | CodecError string
  | InvalidArgument string

text \<open>
  How the promise an operation returns ends up once the transport has delivered all it
  has: resolved with a value, rejected with an error, left pending, or left unsettled
  because an exception escaped the transport callback (nothing in the client catches it).
\<close>

datatype 'a outcome =
    Resolved 'a
  | Rejected error
  | Uncaught error
  | Pending

section \<open>Scalar operations of NamedCacheClient\<close>

text \<open>
  The protobuf messages of a reply. A protobuf getter of a bytes field always yields a
  byte array: the zero-length array when the field is not set.
\<close>

record BytesValue =
  getValue_asU8 :: bytes

record OptionalValue = BytesValue +
  getPresent :: bool

record Entry =
  getKey_asU8 :: bytes
  getEntryValue_asU8 :: bytes

text \<open>
  \<open>EntryResult\<close>, the message of an entry page, is generated code that is not in src and
  no operation here reads it: an unspecified type.
\<close>

typedecl EntryResult

text \<open>
  The arguments \<open>(err, resp)\<close> a unary gRPC call hands to its callback: \<open>err\<close> is
  \<open>None\<close> for \<open>null\<close>, \<open>resp\<close> is \<open>None\<close> for \<open>undefined\<close>.
\<close>

type_synonym 'r reply = "error option \<times> 'r option"

text \<open>
  \<open>Serializer.deserialize\<close> is the external codec: it returns a value or throws. It is a
  parameter (\<open>deserialize\<close>) of every operation that decodes.
\<close>

type_synonym decoder = "bytes \<Rightarrow> error + jsval"

text \<open>
  \<open>NamedCacheClient.toValue\<close>:
  \<^verbatim>\<open>return (value && value.length > 0) ? Serializer.deserialize(value) : null\<close>
\<close>

definition toValue :: "decoder \<Rightarrow> bytes option \<Rightarrow> error + jsval" where
  "toValue deserialize v =
     (case v of
        None \<Rightarrow> Inr JNull
      | Some b \<Rightarrow> if length b > 0 then deserialize b else Inr JNull)"

text \<open>
  \<open>NamedCacheClient.resolveValue(resolve, reject, err, fn)\<close>: rejects on an error, else
  resolves with \<open>fn()\<close>, or with \<open>undefined\<close> when no \<open>fn\<close> is given. An exception thrown
  by \<open>fn\<close> leaves the callback before \<open>resolve\<close> is reached.
\<close>

definition resolveValue :: "error option \<Rightarrow> (unit \<Rightarrow> error + jsval) option \<Rightarrow> jsval outcome" where
  "resolveValue err fn =
     (case err of
        Some e \<Rightarrow> Rejected e
      | None \<Rightarrow>
          (case fn of
             Some f \<Rightarrow> (case f () of Inl x \<Rightarrow> Uncaught x | Inr v \<Rightarrow> Resolved v)
           | None \<Rightarrow> Resolved JUndefined))"

text \<open>
  The thunk the value-returning operations pass to \<open>resolveValue\<close>:
  \<^verbatim>\<open>() => resp ? NamedCacheClient.toValue(resp.getValue_asU8()) : resp\<close>
\<close>

definition value_of_resp :: "decoder \<Rightarrow> ('a BytesValue_scheme) option \<Rightarrow> unit \<Rightarrow> error + jsval" where
  "value_of_resp deserialize resp =
     (\<lambda>_. case resp of
             Some r \<Rightarrow> toValue deserialize (Some (getValue_asU8 r))
           | None \<Rightarrow> Inr JUndefined)"

text \<open>
  A continuation cookie, typed \<^verbatim>\<open>Uint8Array | string | undefined\<close> in the client.
\<close>

datatype cookie = NoCookie | BytesCookie bytes | TextCookie string

text \<open>
  Modelled from the spec: the requests of RequestFactory (request_factory is not in src).
  A request is an immutable description of the cache name, the scope (a key, or a filter)
  and the payload; a paging request is a variant of its own carrying only the cache name
  and the cookie.
\<close>

datatype request =
    GetRequest string jsval
  | PutRequest string jsval jsval "int option"
  | PutIfAbsentRequest string jsval jsval "int option"
  | RemoveRequest string jsval
  | ReplaceRequest string jsval jsval
  | KeySetRequest string jsval
  | EntrySetRequest string jsval
  | ValuesRequest string jsval
  | PageRequest string cookie

text \<open>
  The events a \<open>grpc.ClientReadableStream\<close> emits to the listeners registered with
  \<open>call.on\<close>, in the order it emits them.
\<close>

datatype 'm event = OnData 'm | OnEnd | OnError error

text \<open>
  The gRPC stub (\<open>NamedCacheServiceClient\<close>, generated code that is not in src): a unary
  call answers a request with what the transport passes to the callback, a streaming call
  with the events of its stream.
\<close>

record NamedCacheServiceClient =
  rpc_get :: "request \<Rightarrow> OptionalValue reply"
  rpc_put :: "request \<Rightarrow> BytesValue reply"
  rpc_putIfAbsent :: "request \<Rightarrow> BytesValue reply"
  rpc_remove :: "request \<Rightarrow> BytesValue reply"
  rpc_replace :: "request \<Rightarrow> BytesValue reply"
  rpc_keySet :: "request \<Rightarrow> BytesValue event list"
  rpc_entrySet :: "request \<Rightarrow> Entry event list"
  rpc_values :: "request \<Rightarrow> BytesValue event list"
  rpc_nextKeySetPage :: "request \<Rightarrow> BytesValue event list"
  rpc_nextEntrySetPage :: "request \<Rightarrow> EntryResult event list"

text \<open>The fields of \<open>NamedCacheClient\<close> the operations read.\<close>

record NamedCacheClient =
  cacheName :: string
  client :: NamedCacheServiceClient

text \<open>
  \<open>getOrDefault(key, defaultValue)\<close>: \<open>resolveValue\<close> is reached only when a response is
  there and reports a mapping; every other reply resolves with the default.
\<close>

definition getOrDefault ::
  "decoder \<Rightarrow> NamedCacheClient \<Rightarrow> jsval \<Rightarrow> jsval \<Rightarrow> jsval outcome" where
  "getOrDefault deserialize self key defaultValue =
     (case rpc_get (client self) (GetRequest (cacheName self) key) of (err, resp) \<Rightarrow>
        (case resp of
           Some r \<Rightarrow>
             if getPresent r
             then resolveValue err (Some (value_of_resp deserialize resp))
             else Resolved defaultValue
         | None \<Rightarrow> Resolved defaultValue))"

text \<open>\<open>get(key)\<close> is \<open>getOrDefault(key, null)\<close>.\<close>

definition get :: "decoder \<Rightarrow> NamedCacheClient \<Rightarrow> jsval \<Rightarrow> jsval outcome" where
  "get deserialize self key = getOrDefault deserialize self key JNull"

text \<open>\<open>put\<close>, \<open>putIfAbsent\<close>, \<open>remove\<close> and \<open>replace\<close> hand the reply to \<open>resolveValue\<close>.\<close>

definition put ::
  "decoder \<Rightarrow> NamedCacheClient \<Rightarrow> jsval \<Rightarrow> jsval \<Rightarrow> int option \<Rightarrow> jsval outcome" where
  "put deserialize self key v ttl =
     (case rpc_put (client self) (PutRequest (cacheName self) key v ttl) of (err, resp) \<Rightarrow>
        resolveValue err (Some (value_of_resp deserialize resp)))"

definition putIfAbsent ::
  "decoder \<Rightarrow> NamedCacheClient \<Rightarrow> jsval \<Rightarrow> jsval \<Rightarrow> int option \<Rightarrow> jsval outcome" where
  "putIfAbsent deserialize self key v ttl =
     (case rpc_putIfAbsent (client self) (PutIfAbsentRequest (cacheName self) key v ttl) of
        (err, resp) \<Rightarrow> resolveValue err (Some (value_of_resp deserialize resp)))"

definition remove :: "decoder \<Rightarrow> NamedCacheClient \<Rightarrow> jsval \<Rightarrow> jsval outcome" where
  "remove deserialize self key =
     (case rpc_remove (client self) (RemoveRequest (cacheName self) key) of (err, resp) \<Rightarrow>
        resolveValue err (Some (value_of_resp deserialize resp)))"

definition replace ::
  "decoder \<Rightarrow> NamedCacheClient \<Rightarrow> jsval \<Rightarrow> jsval \<Rightarrow> jsval outcome" where
  "replace deserialize self key v =
     (case rpc_replace (client self) (ReplaceRequest (cacheName self) key v) of (err, resp) \<Rightarrow>
        resolveValue err (Some (value_of_resp deserialize resp)))"

section \<open>Filter-scoped enumerations of NamedCacheClient\<close>

text \<open>
  The calls an operation issues on the gRPC stub, in order: the method and its request.
\<close>

datatype rpc =
    KeySetCall request
  | EntrySetCall request
  | ValuesCall request
  | NextKeySetPageCall request
  | NextEntrySetPageCall request

text \<open>
  A member of the JavaScript \<open>Set\<close> a filter-scoped enumeration fills: a promise created
  already settled, either \<open>resolve(x)\<close> or, when its executor threw, rejected with what
  was thrown. Every member is a fresh promise object, so the \<open>Set\<close> never merges two
  members: it is the list of its members in insertion order.
\<close>

datatype 'a promise = Fulfilled 'a | Broken error

text \<open>
  Modelled from the spec: NamedCacheEntry (streamed_collection is not in src). The client
  constructs it from the encoded key and the encoded value of a streamed entry.
\<close>

datatype NamedCacheEntry = NamedCacheEntry bytes bytes

text \<open>
  What the promise of \<open>keySet\<close>, \<open>entrySet\<close> or \<open>values\<close> resolves to:
  \<open>new KeySet(this)\<close>, \<open>new EntrySet(this)\<close> or \<open>new ValueSet(this)\<close> (the streamed
  collections of streamed_collection, constructed on the client), or the \<open>Set\<close> that the
  stream of a filter-scoped call has filled.
\<close>

datatype 'a collection =
    KeySet NamedCacheClient
  | EntrySet NamedCacheClient
  | ValueSet NamedCacheClient
  | JsSet "'a list"

text \<open>
  The state the three listeners of a filter-scoped call share: the \<open>Set\<close> and the promise
  they settle. A promise settles once: a later \<open>resolve\<close> or \<open>reject\<close> does nothing.
\<close>

datatype settlement = NotYet | WithSet | WithError error

record 'a call_state =
  members :: "'a list"
  settlement :: settlement

text \<open>
  The \<open>'data'\<close> listeners. \<open>keySet\<close> decodes in the listener and adds the key only
  when it is truthy; \<open>entrySet\<close> wraps the two byte arrays; \<open>values\<close> decodes inside
  the executor of the member promise, which turns an exception into a rejected member.
\<close>

definition keySet_on_data ::
  "decoder \<Rightarrow> BytesValue \<Rightarrow> jsval promise list \<Rightarrow> error + jsval promise list" where
  "keySet_on_data deserialize r ms =
     (case deserialize (getValue_asU8 r) of
        Inl x \<Rightarrow> Inl x
      | Inr k \<Rightarrow> Inr (if truthy k then ms @ [Fulfilled k] else ms))"

definition entrySet_on_data ::
  "Entry \<Rightarrow> NamedCacheEntry promise list \<Rightarrow> error + NamedCacheEntry promise list" where
  "entrySet_on_data e ms =
     Inr (ms @ [Fulfilled (NamedCacheEntry (getKey_asU8 e) (getEntryValue_asU8 e))])"

definition values_on_data ::
  "decoder \<Rightarrow> BytesValue \<Rightarrow> jsval promise list \<Rightarrow> error + jsval promise list" where
  "values_on_data deserialize b ms =
     Inr (ms @ [case deserialize (getValue_asU8 b) of Inl x \<Rightarrow> Broken x | Inr v \<Rightarrow> Fulfilled v])"

text \<open>
  One event reaches its listener: \<open>'data'\<close> runs the listener above (\<open>Inl\<close>: it threw),
  \<open>'end'\<close> resolves with the \<open>Set\<close>, \<open>'error'\<close> rejects with the error (the line it
  writes to the console first is left out).
\<close>

fun deliver ::
  "('m \<Rightarrow> 'a list \<Rightarrow> error + 'a list) \<Rightarrow> 'm event \<Rightarrow> 'a call_state \<Rightarrow> error + 'a call_state" where
  "deliver on_data (OnData m) st =
     (case on_data m (members st) of
        Inl x \<Rightarrow> Inl x
      | Inr s \<Rightarrow> Inr (st\<lparr>members := s\<rparr>))"
| "deliver on_data OnEnd st =
     Inr (if settlement st = NotYet then st\<lparr>settlement := WithSet\<rparr> else st)"
| "deliver on_data (OnError e) st =
     Inr (if settlement st = NotYet then st\<lparr>settlement := WithError e\<rparr> else st)"

text \<open>
  The events of a stream in order. An exception that leaves a listener is caught nowhere
  in the client: it propagates to the emitter and is collected here. The \<open>Set\<close> and the
  promise stay as they were, the listeners stay registered, and the events the stream
  emits after it reach them as before.
\<close>

fun run_stream ::
  "('m \<Rightarrow> 'a list \<Rightarrow> error + 'a list) \<Rightarrow> 'm event list \<Rightarrow> 'a call_state
     \<Rightarrow> 'a call_state \<times> error list" where
  "run_stream on_data [] st = (st, [])"
| "run_stream on_data (ev # evs) st =
     (case deliver on_data ev st of
        Inl x \<Rightarrow> (case run_stream on_data evs st of (st', thrown) \<Rightarrow> (st', x # thrown))
      | Inr st' \<Rightarrow> run_stream on_data evs st')"

text \<open>
  The returned promise after the stream: resolved with the \<open>Set\<close> (one object, read with
  the members it has at the end), rejected, or never settled.
\<close>

definition settle :: "'a call_state \<times> error list \<Rightarrow> 'a collection outcome" where
  "settle r =
     (case r of (st, thrown) \<Rightarrow>
        (case settlement st of
           WithSet \<Rightarrow> Resolved (JsSet (members st))
         | WithError e \<Rightarrow> Rejected e
         | NotYet \<Rightarrow> (case thrown of x # later \<Rightarrow> Uncaught x | [] \<Rightarrow> Pending)))"

definition collect ::
  "('m \<Rightarrow> 'a list \<Rightarrow> error + 'a list) \<Rightarrow> 'm event list \<Rightarrow> 'a collection outcome" where
  "collect on_data call = settle (run_stream on_data call \<lparr>members = [], settlement = NotYet\<rparr>)"

text \<open>
  \<open>keySet(arg)\<close>, \<open>entrySet(arg)\<close> and \<open>values(arg)\<close>: the calls issued and the outcome of
  the returned promise. Without an argument (\<open>!arg\<close>) no call is issued and the promise
  resolves with the streamed collection; with one, the request for the filter goes out on
  one streaming call whose events fill the \<open>Set\<close>.
\<close>

definition keySet ::
  "decoder \<Rightarrow> NamedCacheClient \<Rightarrow> jsval \<Rightarrow> rpc list \<times> jsval promise collection outcome" where
  "keySet deserialize self arg =
     (if \<not> truthy arg then ([], Resolved (KeySet self))
      else
        (let request = KeySetRequest (cacheName self) arg;
             call = rpc_keySet (client self) request
         in ([KeySetCall request], collect (keySet_on_data deserialize) call)))"

definition entrySet ::
  "NamedCacheClient \<Rightarrow> jsval \<Rightarrow> rpc list \<times> NamedCacheEntry promise collection outcome" where
  "entrySet self arg =
     (if \<not> truthy arg then ([], Resolved (EntrySet self))
      else
        (let request = EntrySetRequest (cacheName self) arg;
             call = rpc_entrySet (client self) request
         in ([EntrySetCall request], collect entrySet_on_data call)))"

definition values_of ::
  "decoder \<Rightarrow> NamedCacheClient \<Rightarrow> jsval \<Rightarrow> rpc list \<times> jsval promise collection outcome" where
  "values_of deserialize self arg =
     (if \<not> truthy arg then ([], Resolved (ValueSet self))
      else
        (let request = ValuesRequest (cacheName self) arg;
             call = rpc_values (client self) request
         in ([ValuesCall request], collect (values_on_data deserialize) call)))"

text \<open>
  \<open>nextKeySetPage(cookie)\<close> and \<open>nextEntrySetPage(cookie)\<close>: the page request for the
  cookie goes out on the paging call; the stream is returned to the caller.
\<close>

definition nextKeySetPage :: "NamedCacheClient \<Rightarrow> cookie \<Rightarrow> rpc \<times> BytesValue event list" where
  "nextKeySetPage self cookie =
     (let request = PageRequest (cacheName self) cookie
      in (NextKeySetPageCall request, rpc_nextKeySetPage (client self) request))"

definition nextEntrySetPage :: "NamedCacheClient \<Rightarrow> cookie \<Rightarrow> rpc \<times> EntryResult event list" where
  "nextEntrySetPage self cookie =
     (let request = PageRequest (cacheName self) cookie
      in (NextEntrySetPageCall request, rpc_nextEntrySetPage (client self) request))"

section \<open>Expression nodes: filters, processors and aggregators\<close>

text \<open>
  A constructor runs assignments \<open>this[k] = v\<close>, the base class's first. An assignment to
  a property the object has replaces the value where it stands; a new property goes last.
\<close>

fun assign :: "string \<Rightarrow> jsval \<Rightarrow> (string \<times> jsval) list \<Rightarrow> (string \<times> jsval) list" where
  "assign k v [] = [(k, v)]"
| "assign k v (p # ps) = (if fst p = k then (k, v) # ps else p # assign k v ps)"

text \<open>
  The assignments of a construction in the order they run, and the object they leave.
\<close>

type_synonym writes = "(string \<times> jsval) list"

definition construct :: "writes \<Rightarrow> jsval" where
  "construct ws = JObj (foldl (\<lambda>ps w. assign (fst w) (snd w) ps) [] ws)"

text \<open>Reading an own property of a node, and the values assigned to its type tag.\<close>

definition field :: "string \<Rightarrow> jsval \<Rightarrow> jsval option" where
  "field k n = (case n of JObj ps \<Rightarrow> map_of ps k | _ \<Rightarrow> None)"

definition tag_writes :: "writes \<Rightarrow> jsval list" where
  "tag_writes ws = map snd (filter (\<lambda>w. fst w = ''@class'') ws)"

text \<open>
  \<open>internal.filterName\<close>, \<open>internal.processorName\<close> and \<open>internal.aggregatorName\<close>
  (package-internal is not in src) turn a class name into the tag the server knows; the
  factory that resolves a property path into an extractor is not in src either. They are
  parameters of the constructors.
\<close>

record internal =
  filterName :: "string \<Rightarrow> string"
  processorName :: "string \<Rightarrow> string"
  aggregatorName :: "string \<Rightarrow> string"
  extractProperty :: "string \<Rightarrow> jsval"

text \<open>An optional parameter with a default value: \<open>None\<close> is an argument left out.\<close>

definition or_default :: "'a \<Rightarrow> 'a option \<Rightarrow> 'a" where
  "or_default d x = (case x of None \<Rightarrow> d | Some v \<Rightarrow> v)"

text \<open>
  Modelled from the spec: the constructor of the base class Filter (not in src). An
  expression node carries its type tag, assigned once at construction; the sources read
  and write it as the property \<open>@class\<close>.
\<close>

definition Filter_init :: "string \<Rightarrow> writes" where
  "Filter_init clz = [(''@class'', JStr clz)]"

text \<open>
  Modelled from the spec: the constructor of ComparisonFilter (not in src). A leaf filter
  holds an extractor and a comparison value beside its tag.
\<close>

definition ComparisonFilter_init :: "string \<Rightarrow> jsval \<Rightarrow> jsval \<Rightarrow> writes" where
  "ComparisonFilter_init clz extractor v =
     Filter_init clz @ [(''extractor'', extractor), (''value'', v)]"

text \<open>
  Modelled from the spec: the constructor of the base class EntryProcessor (not in src):
  the node carries its type tag.
\<close>

definition EntryProcessor_init :: "string \<Rightarrow> writes" where
  "EntryProcessor_init clz = [(''@class'', JStr clz)]"

text \<open>
  Modelled from the spec: the constructor of AbstractDoubleAggregator (not in src). An
  aggregator holds its tag and an extractor, a property path being resolved into one.
\<close>

definition AbstractDoubleAggregator_init :: "internal \<Rightarrow> string \<Rightarrow> jsval \<Rightarrow> writes" where
  "AbstractDoubleAggregator_init I clz extractorOrProperty =
     [(''@class'', JStr clz),
      (''extractor'',
         case extractorOrProperty of JStr p \<Rightarrow> extractProperty I p | _ \<Rightarrow> extractorOrProperty)]"

text \<open>
  \<open>KeyAssociatedFilter(filter, hostKey)\<close>: the tag is the literal
  \<open>'KeyAssociatedFilter'\<close>; the filter (\<open>flt\<close>) and the host key are stored as given.
\<close>

definition KeyAssociatedFilter_init :: "jsval \<Rightarrow> jsval \<Rightarrow> writes" where
  "KeyAssociatedFilter_init flt hostKey =
     Filter_init ''KeyAssociatedFilter'' @ [(''filter'', flt), (''hostKey'', hostKey)]"

definition KeyAssociatedFilter :: "jsval \<Rightarrow> jsval \<Rightarrow> jsval" where
  "KeyAssociatedFilter flt hostKey = construct (KeyAssociatedFilter_init flt hostKey)"

definition is_KeyAssociated :: "jsval \<Rightarrow> bool" where
  "is_KeyAssociated n = (field ''@class'' n = Some (JStr ''KeyAssociatedFilter''))"

text \<open>\<open>LessFilter(extractor, value)\<close>.\<close>

definition LessFilter_init :: "internal \<Rightarrow> jsval \<Rightarrow> jsval \<Rightarrow> writes" where
  "LessFilter_init I extractor v = ComparisonFilter_init (filterName I ''LessFilter'') extractor v"

definition LessFilter :: "internal \<Rightarrow> jsval \<Rightarrow> jsval \<Rightarrow> jsval" where
  "LessFilter I extractor v = construct (LessFilter_init I extractor v)"

text \<open>
  Modelled from the spec: LessEqualsFilter (not in src), a comparison filter like
  LessFilter under its own class name.
\<close>

definition LessEqualsFilter :: "internal \<Rightarrow> jsval \<Rightarrow> jsval \<Rightarrow> jsval" where
  "LessEqualsFilter I extractor v =
     construct (ComparisonFilter_init (filterName I ''LessEqualsFilter'') extractor v)"

text \<open>
  Modelled from the spec: GreaterFilter (not in src), a comparison filter like LessFilter
  under its own class name.
\<close>

definition GreaterFilter :: "internal \<Rightarrow> jsval \<Rightarrow> jsval \<Rightarrow> jsval" where
  "GreaterFilter I extractor v =
     construct (ComparisonFilter_init (filterName I ''GreaterFilter'') extractor v)"

text \<open>
  Modelled from the spec: GreaterEqualsFilter (not in src), a comparison filter like
  LessFilter under its own class name.
\<close>

definition GreaterEqualsFilter :: "internal \<Rightarrow> jsval \<Rightarrow> jsval \<Rightarrow> jsval" where
  "GreaterEqualsFilter I extractor v =
     construct (ComparisonFilter_init (filterName I ''GreaterEqualsFilter'') extractor v)"

text \<open>
  Modelled from the spec: the constructor the composite filters share (AndFilter, OrFilter
  and NotFilter are not in src). A composite holds the ordered sequence of its child
  filters, and its constructor rejects a key-association child with an invalid-argument
  error.
\<close>

definition composite_init :: "string \<Rightarrow> jsval list \<Rightarrow> error + writes" where
  "composite_init clz children =
     (if list_ex is_KeyAssociated children
      then Inl (InvalidArgument ''key-association filter as a child'')
      else Inr (Filter_init clz @ [(''children'', JArr children)]))"

text \<open>Modelled from the spec: the constructor of AndFilter (not in src), a composite of two.\<close>

definition AndFilter_init :: "internal \<Rightarrow> jsval \<Rightarrow> jsval \<Rightarrow> error + writes" where
  "AndFilter_init I left right = composite_init (filterName I ''AndFilter'') [left, right]"

text \<open>Modelled from the spec: the constructor of OrFilter (not in src), a composite of two.\<close>

definition OrFilter_init :: "internal \<Rightarrow> jsval \<Rightarrow> jsval \<Rightarrow> error + writes" where
  "OrFilter_init I left right = composite_init (filterName I ''OrFilter'') [left, right]"

text \<open>Modelled from the spec: the constructor of NotFilter (not in src), a composite of one.\<close>

definition NotFilter_init :: "internal \<Rightarrow> jsval \<Rightarrow> error + writes" where
  "NotFilter_init I inner = composite_init (filterName I ''NotFilter'') [inner]"

text \<open>The node a construction leaves when no constructor has thrown.\<close>

definition built :: "error + writes \<Rightarrow> error + jsval" where
  "built r = (case r of Inl x \<Rightarrow> Inl x | Inr ws \<Rightarrow> Inr (construct ws))"

text \<open>Modelled from the spec: \<open>and(left, right)\<close>, the node of AndFilter (not in src).\<close>

definition AndFilter :: "internal \<Rightarrow> jsval \<Rightarrow> jsval \<Rightarrow> error + jsval" where
  "AndFilter I left right = built (AndFilter_init I left right)"

text \<open>Modelled from the spec: \<open>or(left, right)\<close>, the node of OrFilter (not in src).\<close>

definition OrFilter :: "internal \<Rightarrow> jsval \<Rightarrow> jsval \<Rightarrow> error + jsval" where
  "OrFilter I left right = built (OrFilter_init I left right)"

text \<open>Modelled from the spec: \<open>not(inner)\<close>, the node of NotFilter (not in src).\<close>

definition NotFilter :: "internal \<Rightarrow> jsval \<Rightarrow> error + jsval" where
  "NotFilter I inner = built (NotFilter_init I inner)"

text \<open>
  \<open>BetweenFilter(extractor, from, to, includeLowerBound = false, includeUpperBound =
  false)\<close>: the constructor of the superclass AndFilter runs on the two comparison filters
  (an exception of it leaves the construction), then the tag is assigned again and the
  bounds are stored. The superclass constructor is the parameter \<open>super_init\<close>.
\<close>

definition BetweenFilter_init ::
  "(jsval \<Rightarrow> jsval \<Rightarrow> error + writes) \<Rightarrow> internal \<Rightarrow> jsval \<Rightarrow> jsval \<Rightarrow> jsval
     \<Rightarrow> bool option \<Rightarrow> bool option \<Rightarrow> error + writes" where
  "BetweenFilter_init super_init I extractor from to includeLowerBound includeUpperBound =
     (case super_init
             (if or_default False includeLowerBound
              then GreaterEqualsFilter I extractor from
              else GreaterFilter I extractor from)
             (if or_default False includeUpperBound
              then LessEqualsFilter I extractor to
              else LessFilter I extractor to) of
        Inl x \<Rightarrow> Inl x
      | Inr ws \<Rightarrow>
          Inr (ws @ [(''@class'', JStr (filterName I ''BetweenFilter'')),
                     (''from'', from), (''to'', to)]))"

definition BetweenFilter ::
  "(jsval \<Rightarrow> jsval \<Rightarrow> error + writes) \<Rightarrow> internal \<Rightarrow> jsval \<Rightarrow> jsval \<Rightarrow> jsval
     \<Rightarrow> bool option \<Rightarrow> bool option \<Rightarrow> error + jsval" where
  "BetweenFilter super_init I extractor from to includeLowerBound includeUpperBound =
     built (BetweenFilter_init super_init I extractor from to includeLowerBound includeUpperBound)"

text \<open>
  \<open>LikeFilter(extractor, pattern, escape = '', ignoreCase = false)\<close>: \<open>escape\<close> is
  assigned only under \<open>escape && escape.length > 0\<close>; \<open>ignoreCase\<close> always, as
  \<open>ignoreCase || false\<close>.
\<close>

definition LikeFilter_init ::
  "internal \<Rightarrow> jsval \<Rightarrow> string \<Rightarrow> string option \<Rightarrow> bool option \<Rightarrow> writes" where
  "LikeFilter_init I extractor pattern escape ignoreCase =
     (let esc = or_default [] escape; ic = or_default False ignoreCase
      in ComparisonFilter_init (filterName I ''LikeFilter'') extractor (JStr pattern)
         @ (if esc \<noteq> [] \<and> length esc > 0 then [(''escape'', JStr esc)] else [])
         @ [(''ignoreCase'', JBool (ic \<or> False))])"

definition LikeFilter ::
  "internal \<Rightarrow> jsval \<Rightarrow> string \<Rightarrow> string option \<Rightarrow> bool option \<Rightarrow> jsval" where
  "LikeFilter I extractor pattern escape ignoreCase =
     construct (LikeFilter_init I extractor pattern escape ignoreCase)"

text \<open>\<open>GetProcessor()\<close>, \<open>DistinctValuesAggregator(e)\<close> and \<open>MinAggregator(e)\<close>.\<close>

definition GetProcessor_init :: "internal \<Rightarrow> writes" where
  "GetProcessor_init I = EntryProcessor_init (processorName I ''Get'')"

definition GetProcessor :: "internal \<Rightarrow> jsval" where
  "GetProcessor I = construct (GetProcessor_init I)"

definition DistinctValuesAggregator_init :: "internal \<Rightarrow> jsval \<Rightarrow> writes" where
  "DistinctValuesAggregator_init I extractorOrProperty =
     AbstractDoubleAggregator_init I (aggregatorName I ''DistinctValues'') extractorOrProperty"

definition DistinctValuesAggregator :: "internal \<Rightarrow> jsval \<Rightarrow> jsval" where
  "DistinctValuesAggregator I extractorOrProperty =
     construct (DistinctValuesAggregator_init I extractorOrProperty)"

definition MinAggregator_init :: "internal \<Rightarrow> jsval \<Rightarrow> writes" where
  "MinAggregator_init I extractorOrProperty =
     AbstractDoubleAggregator_init I (aggregatorName I ''ComparableMin'') extractorOrProperty"

definition MinAggregator :: "internal \<Rightarrow> jsval \<Rightarrow> jsval" where
  "MinAggregator I extractorOrProperty = construct (MinAggregator_init I extractorOrProperty)"

section \<open>Paged streamed collections\<close>

text \<open>An absent or empty cookie, and an event that reports a stream error.\<close>

fun cookie_empty :: "cookie \<Rightarrow> bool" where
  "cookie_empty NoCookie = True"
| "cookie_empty (BytesCookie b) = (b = [])"
| "cookie_empty (TextCookie t) = (t = [])"

fun is_error :: "'m event \<Rightarrow> bool" where
  "is_error (OnError e) = True"
| "is_error ev = False"

text \<open>
  Modelled from the spec: the page loop of a streamed collection (streamed_collection is
  not in src). A streamed collection wraps the cache client and the current continuation
  cookie, absent at the start. Iterating requests the first page with no cookie and the
  next page only once the stream of the current page has completed, with the cookie of
  that page; a page that completes with an absent or empty cookie ends the enumeration,
  and so does a stream error. How a completed page carries its cookie is the protocol of
  the transport: the parameter \<open>cookie_of\<close>. The fuel bounds the number of pages one
  iteration asks for.
\<close>

fun page_requests ::
  "nat \<Rightarrow> (cookie \<Rightarrow> rpc \<times> 'm event list) \<Rightarrow> ('m event list \<Rightarrow> cookie) \<Rightarrow> cookie \<Rightarrow> rpc list" where
  "page_requests 0 next_page cookie_of ck = []"
| "page_requests (Suc fuel) next_page cookie_of ck =
     (case next_page ck of (call, stream) \<Rightarrow>
        call #
        (if list_ex is_error stream \<or> cookie_empty (cookie_of stream) then []
         else page_requests fuel next_page cookie_of (cookie_of stream)))"

text \<open>
  Modelled from the spec: the calls that iterating KeySet, EntrySet or ValueSet issues
  (streamed_collection is not in src). Key pages are requested with \<open>nextKeySetPage\<close>,
  entry pages and value pages with \<open>nextEntrySetPage\<close>: the client has no other page
  request. A \<open>Set\<close> that a filter-scoped call has filled is iterated without any call.
\<close>

definition iterate_calls ::
  "nat \<Rightarrow> (BytesValue event list \<Rightarrow> cookie) \<Rightarrow> (EntryResult event list \<Rightarrow> cookie)
     \<Rightarrow> 'a collection \<Rightarrow> rpc list" where
  "iterate_calls fuel key_cookie entry_cookie c =
     (case c of
        KeySet self \<Rightarrow> page_requests fuel (nextKeySetPage self) key_cookie NoCookie
      | EntrySet self \<Rightarrow> page_requests fuel (nextEntrySetPage self) entry_cookie NoCookie
      | ValueSet self \<Rightarrow> page_requests fuel (nextEntrySetPage self) entry_cookie NoCookie
      | JsSet ms \<Rightarrow> [])"

text \<open>A call that asks for a page, and the cookie it carries.\<close>

fun page_cookie :: "rpc \<Rightarrow> cookie option" where
  "page_cookie (NextKeySetPageCall (PageRequest c ck)) = Some ck"
| "page_cookie (NextEntrySetPageCall (PageRequest c ck)) = Some ck"
| "page_cookie call = None"

section \<open>Concrete inputs\<close>

text \<open>
  A codec for evaluation: one byte encodes the integer it holds, the byte 255 is a tag
  the codec does not know, and no input at all is an error as well.
\<close>

fun sample_deserialize :: "bytes \<Rightarrow> error + jsval" where
  "sample_deserialize [] = Inl (CodecError ''no input'')"
| "sample_deserialize (b # bs) =
     (if b = 255 then Inl (CodecError ''unknown tag'') else Inr (JNum (uint b)))"

text \<open>
  A transport that answers every \<open>get\<close> with \<open>g\<close>, every other unary call with \<open>b\<close>,
  every stream of keys or values with \<open>ks\<close>, every stream of entries with \<open>es\<close> and every
  entry page with an empty one; and a client of the cache \<open>people\<close> on it.
\<close>

definition stub_service ::
  "OptionalValue reply \<Rightarrow> BytesValue reply \<Rightarrow> BytesValue event list \<Rightarrow> Entry event list
     \<Rightarrow> NamedCacheServiceClient" where
  "stub_service g b ks es =
     \<lparr> rpc_get = (\<lambda>_. g), rpc_put = (\<lambda>_. b), rpc_putIfAbsent = (\<lambda>_. b),
       rpc_remove = (\<lambda>_. b), rpc_replace = (\<lambda>_. b),
       rpc_keySet = (\<lambda>_. ks), rpc_entrySet = (\<lambda>_. es), rpc_values = (\<lambda>_. ks),
       rpc_nextKeySetPage = (\<lambda>_. ks), rpc_nextEntrySetPage = (\<lambda>_. [OnEnd]) \<rparr>"

definition stub_cache ::
  "OptionalValue reply \<Rightarrow> BytesValue reply \<Rightarrow> BytesValue event list \<Rightarrow> Entry event list
     \<Rightarrow> NamedCacheClient" where
  "stub_cache g b ks es = \<lparr> cacheName = ''people'', client = stub_service g b ks es \<rparr>"

text \<open>
  Tag names as the tests of the repository expect them of processors
  (\<open>Util.PROCESSOR_PACKAGE + 'ExtractorProcessor'\<close>): a package prefix before the class
  name; and a filter on the property \<open>age\<close>.
\<close>

definition sample_internal :: internal where
  "sample_internal =
     \<lparr> filterName = (\<lambda>n. ''filter.'' @ n),
       processorName = (\<lambda>n. ''processor.'' @ n),
       aggregatorName = (\<lambda>n. ''aggregator.'' @ n),
       extractProperty =
         (\<lambda>p. JObj [(''@class'', JStr ''extractor.UniversalExtractor''), (''name'', JStr p)]) \<rparr>"

definition age :: jsval where
  "age = extractProperty sample_internal ''age''"

definition under_40 :: jsval where
  "under_40 = LessFilter sample_internal age (JNum 40)"

text \<open>The transport error of a server that cannot be reached.\<close>

definition unavailable :: error where
  "unavailable = ServiceError 14 ''UNAVAILABLE''"

text \<open>
  A server that delivers the keys in two pages, and a reading of the cookie of a page: its
  first message. The first page carries the cookie \<open>[1]\<close>, the second an empty one.
\<close>

definition first_as_cookie :: "BytesValue event list \<Rightarrow> cookie" where
  "first_as_cookie evs = (case evs of OnData r # rest \<Rightarrow> BytesCookie (getValue_asU8 r) | _ \<Rightarrow> NoCookie)"

definition two_key_pages :: "request \<Rightarrow> BytesValue event list" where
  "two_key_pages req =
     (case req of
        PageRequest c NoCookie \<Rightarrow> [OnData \<lparr>getValue_asU8 = [1]\<rparr>, OnData \<lparr>getValue_asU8 = [7]\<rparr>, OnEnd]
      | _ \<Rightarrow> [OnData \<lparr>getValue_asU8 = []\<rparr>, OnData \<lparr>getValue_asU8 = [9]\<rparr>, OnEnd])"

text \<open>
  The same for entry pages. Their messages are of the unspecified type, so the pages here
  hold none and are told apart by their length: the first page, of one event, completes
  with the cookie \<open>page 2\<close>, the second with none.
\<close>

definition two_entry_pages :: "request \<Rightarrow> EntryResult event list" where
  "two_entry_pages req = (case req of PageRequest c NoCookie \<Rightarrow> [OnEnd] | _ \<Rightarrow> [OnEnd, OnEnd])"

definition short_page_cookie :: "EntryResult event list \<Rightarrow> cookie" where
  "short_page_cookie evs = (if length evs = 1 then TextCookie ''page 2'' else NoCookie)"

definition paged_cache :: NamedCacheClient where
  "paged_cache =
     \<lparr> cacheName = ''people'',
       client = (stub_service (None, None) (None, None) [] [])
         \<lparr>rpc_nextKeySetPage := two_key_pages, rpc_nextEntrySetPage := two_entry_pages\<rparr> \<rparr>"

section \<open>Properties of the scalar operations\<close>

lemma toValue_empty:
  "toValue deserialize None = Inr JNull" "toValue deserialize (Some []) = Inr JNull"
  by (simp_all add: toValue_def)

lemma toValue_nonempty: "b \<noteq> [] \<Longrightarrow> toValue deserialize (Some b) = deserialize b"
  by (simp add: toValue_def)

lemma resolveValue_empty_payload:
  "getValue_asU8 r = [] \<Longrightarrow>
   resolveValue None (Some (value_of_resp deserialize (Some r))) = Resolved JNull"
  by (simp add: resolveValue_def value_of_resp_def toValue_def)

text \<open>
  C2. A transport error of a scalar operation should reject the returned promise with that
  error. Evaluated where the transport reports \<open>UNAVAILABLE\<close> and no response:
  \<open>getOrDefault\<close> resolves with the default value and \<open>get\<close> with \<open>null\<close>, the error is
  lost; \<open>remove\<close>, which hands the same reply to \<open>resolveValue\<close>, rejects with it.
\<close>

theorem getOrDefault_resolves_on_transport_error:
  "getOrDefault sample_deserialize
      (stub_cache (Some unavailable, None) (Some unavailable, None) [] [])
      (JStr ''k'') (JStr ''fallback'') = Resolved (JStr ''fallback'')
   \<and> get sample_deserialize
      (stub_cache (Some unavailable, None) (Some unavailable, None) [] [])
      (JStr ''k'') = Resolved JNull
   \<and> remove sample_deserialize
      (stub_cache (Some unavailable, None) (Some unavailable, None) [] [])
      (JStr ''k'') = Rejected unavailable"
  by (simp add: getOrDefault_def get_def remove_def resolveValue_def stub_cache_def
      stub_service_def)

text \<open>
  C7. When the response to \<open>get\<close> reports that no mapping is present for the key,
  \<open>getOrDefault(k, d)\<close> resolves with \<open>d\<close> and \<open>get(k)\<close> with \<open>null\<close>: the absence of a
  mapping is a resolved value, never a rejection.
\<close>

theorem absent_mapping_resolves_default:
  assumes "rpc_get (client self) (GetRequest (cacheName self) k) = (err, Some r)"
    and "\<not> getPresent r"
  shows "getOrDefault deserialize self k d = Resolved d
         \<and> get deserialize self k = Resolved JNull"
  using assms by (simp add: getOrDefault_def get_def)

theorem absent_mapping_resolves_default_witness:
  "getOrDefault sample_deserialize
      (stub_cache (None, Some \<lparr>getValue_asU8 = [], getPresent = False\<rparr>) (None, None) [] [])
      (JStr ''k'') (JNum 5) = Resolved (JNum 5)
   \<and> get sample_deserialize
      (stub_cache (None, Some \<lparr>getValue_asU8 = [], getPresent = False\<rparr>) (None, None) [] [])
      (JStr ''k'') = Resolved JNull"
  using absent_mapping_resolves_default
    [of "stub_cache (None, Some \<lparr>getValue_asU8 = [], getPresent = False\<rparr>) (None, None) [] []"
        "JStr ''k''" None "\<lparr>getValue_asU8 = [], getPresent = False\<rparr>"
        sample_deserialize "JNum 5"]
  by (simp add: stub_cache_def stub_service_def)

text \<open>
  C10. For \<open>get\<close>, \<open>put\<close>, \<open>putIfAbsent\<close>, \<open>remove\<close> and \<open>replace\<close>: a response without
  error whose value payload is the zero-length byte array (what the getter yields for an
  absent payload as well) resolves with \<open>null\<close>, whatever the codec would do with it;
  \<open>toValue\<close> answers \<open>null\<close> for an absent and for an empty payload without calling the
  codec, and is the codec's result on a payload that is not empty.
\<close>

theorem empty_payload_resolves_null:
  "(rpc_get (client self) (GetRequest (cacheName self) k) = (None, Some g)
      \<and> getValue_asU8 g = []
      \<longrightarrow> get deserialize self k = Resolved JNull)
   \<and> (rpc_put (client self) (PutRequest (cacheName self) k v ttl) = (None, Some r)
      \<and> getValue_asU8 r = []
      \<longrightarrow> put deserialize self k v ttl = Resolved JNull)
   \<and> (rpc_putIfAbsent (client self) (PutIfAbsentRequest (cacheName self) k v ttl) = (None, Some r)
      \<and> getValue_asU8 r = []
      \<longrightarrow> putIfAbsent deserialize self k v ttl = Resolved JNull)
   \<and> (rpc_remove (client self) (RemoveRequest (cacheName self) k) = (None, Some r)
      \<and> getValue_asU8 r = []
      \<longrightarrow> remove deserialize self k = Resolved JNull)
   \<and> (rpc_replace (client self) (ReplaceRequest (cacheName self) k v) = (None, Some r)
      \<and> getValue_asU8 r = []
      \<longrightarrow> replace deserialize self k v = Resolved JNull)
   \<and> toValue deserialize None = Inr JNull
   \<and> toValue deserialize (Some []) = Inr JNull
   \<and> (b \<noteq> [] \<longrightarrow> toValue deserialize (Some b) = deserialize b)"
  by (simp add: get_def getOrDefault_def put_def putIfAbsent_def remove_def replace_def
      resolveValue_empty_payload toValue_empty toValue_nonempty)

theorem empty_payload_resolves_null_witness:
  "get sample_deserialize
      (stub_cache (None, Some \<lparr>getValue_asU8 = [], getPresent = True\<rparr>)
         (None, Some \<lparr>getValue_asU8 = []\<rparr>) [] [])
      (JStr ''k'') = Resolved JNull
   \<and> put sample_deserialize
      (stub_cache (None, Some \<lparr>getValue_asU8 = [], getPresent = True\<rparr>)
         (None, Some \<lparr>getValue_asU8 = []\<rparr>) [] [])
      (JStr ''k'') (JNum 1) None = Resolved JNull
   \<and> putIfAbsent sample_deserialize
      (stub_cache (None, Some \<lparr>getValue_asU8 = [], getPresent = True\<rparr>)
         (None, Some \<lparr>getValue_asU8 = []\<rparr>) [] [])
      (JStr ''k'') (JNum 1) None = Resolved JNull
   \<and> remove sample_deserialize
      (stub_cache (None, Some \<lparr>getValue_asU8 = [], getPresent = True\<rparr>)
         (None, Some \<lparr>getValue_asU8 = []\<rparr>) [] [])
      (JStr ''k'') = Resolved JNull
   \<and> replace sample_deserialize
      (stub_cache (None, Some \<lparr>getValue_asU8 = [], getPresent = True\<rparr>)
         (None, Some \<lparr>getValue_asU8 = []\<rparr>) [] [])
      (JStr ''k'') (JNum 1) = Resolved JNull
   \<and> toValue sample_deserialize (Some [7]) = Inr (JNum 7)"
  using empty_payload_resolves_null
    [of "stub_cache (None, Some \<lparr>getValue_asU8 = [], getPresent = True\<rparr>)
           (None, Some \<lparr>getValue_asU8 = []\<rparr>) [] []"
        "JStr ''k''" "\<lparr>getValue_asU8 = [], getPresent = True\<rparr>" sample_deserialize
        "JNum 1" None "\<lparr>getValue_asU8 = []\<rparr>" "[7]"]
  by (simp add: stub_cache_def stub_service_def)

section \<open>Properties of the filter-scoped enumerations\<close>

lemma fst_run_stream_Cons:
  "fst (run_stream h (ev # evs) st) =
     fst (run_stream h evs (case deliver h ev st of Inl x \<Rightarrow> st | Inr st' \<Rightarrow> st'))"
  by (simp split: sum.splits prod.splits)

lemma fst_run_stream_append:
  "fst (run_stream h (xs @ ys) st) = fst (run_stream h ys (fst (run_stream h xs st)))"
  by (induction xs arbitrary: st) (simp_all add: fst_run_stream_Cons del: run_stream.simps(2))

lemma deliver_settlement:
  "deliver h ev st = Inr st' \<Longrightarrow> settlement st \<noteq> NotYet \<Longrightarrow> settlement st' = settlement st"
  by (cases ev) (auto split: sum.splits)

lemma run_stream_settled:
  "settlement st \<noteq> NotYet \<Longrightarrow> settlement (fst (run_stream h evs st)) = settlement st"
proof (induction evs arbitrary: st)
  case Nil
  then show ?case by simp
next
  case (Cons ev evs)
  show ?case
  proof (cases "deliver h ev st")
    case (Inl x)
    with Cons show ?thesis
      by (simp add: fst_run_stream_Cons del: run_stream.simps(2))
  next
    case (Inr st')
    with Cons.prems have "settlement st' = settlement st"
      by (simp add: deliver_settlement)
    with Cons Inr show ?thesis
      by (simp add: fst_run_stream_Cons del: run_stream.simps(2))
  qed
qed

lemma run_data_settlement:
  "settlement (fst (run_stream h (map OnData rs) st)) = settlement st"
  by (induction rs arbitrary: st)
    (simp_all add: fst_run_stream_Cons del: run_stream.simps(2) split: sum.splits)

lemma run_values_data:
  "fst (run_stream (values_on_data d) (map OnData bs) st) =
     st\<lparr>members := members st @
        map (\<lambda>b. case d (getValue_asU8 b) of Inl x \<Rightarrow> Broken x | Inr v \<Rightarrow> Fulfilled v) bs\<rparr>"
  by (induction bs arbitrary: st)
    (simp_all add: fst_run_stream_Cons values_on_data_def del: run_stream.simps(2))

lemma run_entries_data:
  "fst (run_stream entrySet_on_data (map OnData es) st) =
     st\<lparr>members := members st @
        map (\<lambda>e. Fulfilled (NamedCacheEntry (getKey_asU8 e) (getEntryValue_asU8 e))) es\<rparr>"
  by (induction es arbitrary: st)
    (simp_all add: fst_run_stream_Cons entrySet_on_data_def del: run_stream.simps(2))

lemma run_keys_data:
  "map (\<lambda>r. d (getValue_asU8 r)) rs = map Inr ks \<Longrightarrow>
   fst (run_stream (keySet_on_data d) (map OnData rs) st) =
     st\<lparr>members := members st @ map Fulfilled (filter truthy ks)\<rparr>"
  by (induction rs arbitrary: st ks)
    (auto simp add: fst_run_stream_Cons keySet_on_data_def simp del: run_stream.simps(2))

lemma settle_rejected: "settlement (fst r) = WithError e \<Longrightarrow> settle r = Rejected e"
  by (cases r) (simp add: settle_def)

lemma settle_resolved:
  "settlement (fst r) = WithSet \<Longrightarrow> settle r = Resolved (JsSet (members (fst r)))"
  by (cases r) (simp add: settle_def)

lemma end_after_data:
  "collect h (map OnData rs @ [OnEnd]) =
     Resolved (JsSet (members (fst (run_stream h (map OnData rs) \<lparr>members = [], settlement = NotYet\<rparr>))))"
proof -
  let ?st = "fst (run_stream h (map OnData rs) \<lparr>members = [], settlement = NotYet\<rparr>)"
  have "settlement ?st = NotYet"
    by (simp add: run_data_settlement)
  then have "fst (run_stream h (map OnData rs @ [OnEnd]) \<lparr>members = [], settlement = NotYet\<rparr>)
      = ?st\<lparr>settlement := WithSet\<rparr>"
    by (simp add: fst_run_stream_append)
  then show ?thesis
    by (simp add: collect_def settle_resolved)
qed

lemma error_after_data:
  "collect h (map OnData rs @ OnError e # rest) = Rejected e"
proof -
  let ?st = "fst (run_stream h (map OnData rs) \<lparr>members = [], settlement = NotYet\<rparr>)"
  have unsettled: "settlement ?st = NotYet"
    by (simp add: run_data_settlement)
  have "settlement (fst (run_stream h rest (?st\<lparr>settlement := WithError e\<rparr>))) = WithError e"
    using run_stream_settled [of "?st\<lparr>settlement := WithError e\<rparr>" h rest] by simp
  with unsettled
  have "settlement (fst (run_stream h (map OnData rs @ OnError e # rest)
          \<lparr>members = [], settlement = NotYet\<rparr>)) = WithError e"
    by (simp add: fst_run_stream_append)
  then show ?thesis
    by (simp add: collect_def settle_rejected)
qed

text \<open>
  C4 (amended). On a stream that delivers its elements and then ends, \<open>values(filter)\<close>
  and \<open>entrySet(filter)\<close> return one member for every delivered element, in arrival
  order: a value member is fulfilled with the decoded value or, where the codec throws,
  rejected with that exception at its position (the members after it are still produced);
  an entry member holds the encoded key and value and is not decoded. \<open>keySet(filter)\<close>
  decodes every delivered key and, when the keys decode to \<open>ks\<close>, returns keys of \<open>ks\<close> in
  arrival order, among them every key that is truthy: all of \<open>ks\<close> when every key is.
\<close>

theorem filter_scoped_members:
  "(truthy f \<and> rpc_values (client self) (ValuesRequest (cacheName self) f) = map OnData bs @ [OnEnd]
      \<longrightarrow> snd (values_of d self f) =
            Resolved (JsSet (map (\<lambda>b. case d (getValue_asU8 b) of
                                         Inl x \<Rightarrow> Broken x | Inr v \<Rightarrow> Fulfilled v) bs)))
   \<and> (truthy f \<and> rpc_entrySet (client self) (EntrySetRequest (cacheName self) f) = map OnData es @ [OnEnd]
      \<longrightarrow> snd (entrySet self f) =
            Resolved (JsSet (map (\<lambda>e. Fulfilled (NamedCacheEntry (getKey_asU8 e) (getEntryValue_asU8 e))) es)))
   \<and> (truthy f \<and> rpc_keySet (client self) (KeySetRequest (cacheName self) f) = map OnData rs @ [OnEnd]
        \<and> map (\<lambda>r. d (getValue_asU8 r)) rs = map Inr ks
      \<longrightarrow> (\<exists>ms. snd (keySet d self f) = Resolved (JsSet ms)
             \<and> subseq (map Fulfilled (filter truthy ks)) ms
             \<and> subseq ms (map Fulfilled ks)
             \<and> (list_all truthy ks \<longrightarrow> ms = map Fulfilled ks)))"
proof -
  have kept: "subseq (map Fulfilled (filter truthy ks)) (map Fulfilled ks :: jsval promise list)"
    by (simp add: subseq_map)
  have all: "list_all truthy ks \<longrightarrow> map Fulfilled (filter truthy ks) = (map Fulfilled ks :: jsval promise list)"
    by (simp add: list_all_iff)
  show ?thesis
    using kept all
    by (simp add: values_of_def entrySet_def keySet_def end_after_data
        run_values_data run_entries_data run_keys_data)
qed

text \<open>Two keys, two values and one entry delivered before the end of the stream.\<close>

theorem filter_scoped_members_witness:
  "snd (keySet sample_deserialize
          (stub_cache (None, None) (None, None)
             [OnData \<lparr>getValue_asU8 = [7]\<rparr>, OnData \<lparr>getValue_asU8 = [9]\<rparr>, OnEnd]
             [OnData \<lparr>getKey_asU8 = [1], getEntryValue_asU8 = [7]\<rparr>, OnEnd])
          under_40) = Resolved (JsSet [Fulfilled (JNum 7), Fulfilled (JNum 9)])
   \<and> snd (values_of sample_deserialize
          (stub_cache (None, None) (None, None)
             [OnData \<lparr>getValue_asU8 = [7]\<rparr>, OnData \<lparr>getValue_asU8 = [9]\<rparr>, OnEnd]
             [OnData \<lparr>getKey_asU8 = [1], getEntryValue_asU8 = [7]\<rparr>, OnEnd])
          under_40) = Resolved (JsSet [Fulfilled (JNum 7), Fulfilled (JNum 9)])
   \<and> snd (entrySet
          (stub_cache (None, None) (None, None)
             [OnData \<lparr>getValue_asU8 = [7]\<rparr>, OnData \<lparr>getValue_asU8 = [9]\<rparr>, OnEnd]
             [OnData \<lparr>getKey_asU8 = [1], getEntryValue_asU8 = [7]\<rparr>, OnEnd])
          under_40) = Resolved (JsSet [Fulfilled (NamedCacheEntry [1] [7])])"
  using filter_scoped_members
    [of under_40
        "stub_cache (None, None) (None, None)
           [OnData \<lparr>getValue_asU8 = [7]\<rparr>, OnData \<lparr>getValue_asU8 = [9]\<rparr>, OnEnd]
           [OnData \<lparr>getKey_asU8 = [1], getEntryValue_asU8 = [7]\<rparr>, OnEnd]"
        "[\<lparr>getValue_asU8 = [7]\<rparr>, \<lparr>getValue_asU8 = [9]\<rparr>]" sample_deserialize
        "[\<lparr>getKey_asU8 = [1], getEntryValue_asU8 = [7]\<rparr>]"
        "[\<lparr>getValue_asU8 = [7]\<rparr>, \<lparr>getValue_asU8 = [9]\<rparr>]" "[JNum 7, JNum 9]"]
  by (auto simp add: stub_cache_def stub_service_def under_40_def LessFilter_def construct_def)

text \<open>
  C4 as stated fails: a value the codec cannot decode does not abort \<open>values(filter)\<close>.
  The promise resolves, and the collection holds a rejected member at that position and
  the value delivered after it.
\<close>

theorem decode_failure_does_not_abort_counterexample:
  "snd (values_of sample_deserialize
          (stub_cache (None, None) (None, None)
             [OnData \<lparr>getValue_asU8 = [255]\<rparr>, OnData \<lparr>getValue_asU8 = [7]\<rparr>, OnEnd] [])
          under_40) = Resolved (JsSet [Broken (CodecError ''unknown tag''), Fulfilled (JNum 7)])"
  by (simp add: values_of_def collect_def settle_def values_on_data_def
      stub_cache_def stub_service_def under_40_def LessFilter_def construct_def)

text \<open>
  The guard \<open>if (k)\<close> of \<open>keySet\<close> also leaves out a key that decodes to \<open>0\<close>, where
  \<open>values\<close> keeps the element of the same bytes.
\<close>

lemma keySet_omits_key_decoding_to_zero:
  "snd (keySet sample_deserialize
          (stub_cache (None, None) (None, None) [OnData \<lparr>getValue_asU8 = [0]\<rparr>, OnEnd] [])
          under_40) = Resolved (JsSet [])
   \<and> snd (values_of sample_deserialize
          (stub_cache (None, None) (None, None) [OnData \<lparr>getValue_asU8 = [0]\<rparr>, OnEnd] [])
          under_40) = Resolved (JsSet [Fulfilled (JNum 0)])"
  by (simp add: keySet_def values_of_def collect_def settle_def keySet_on_data_def
      values_on_data_def stub_cache_def stub_service_def under_40_def LessFilter_def construct_def)

text \<open>
  C8. When the stream of a filter-scoped enumeration emits \<open>'error'\<close> after any number of
  elements (and no \<open>'end'\<close> before it), the returned promise rejects with that error and
  no collection is returned: for \<open>keySet\<close>, \<open>entrySet\<close> and \<open>values\<close> alike, whatever
  the codec does with the elements and whatever the stream emits afterwards.
\<close>

theorem stream_error_rejects:
  "(truthy f \<and> rpc_values (client self) (ValuesRequest (cacheName self) f) = map OnData bs @ OnError e # rest
      \<longrightarrow> snd (values_of d self f) = Rejected e)
   \<and> (truthy f \<and> rpc_entrySet (client self) (EntrySetRequest (cacheName self) f) = map OnData es @ OnError e # rest'
      \<longrightarrow> snd (entrySet self f) = Rejected e)
   \<and> (truthy f \<and> rpc_keySet (client self) (KeySetRequest (cacheName self) f) = map OnData rs @ OnError e # rest
      \<longrightarrow> snd (keySet d self f) = Rejected e)"
  by (simp add: values_of_def entrySet_def keySet_def error_after_data)

text \<open>
  A stream error after two elements, the first of which the codec cannot decode.
\<close>

theorem stream_error_rejects_witness:
  "snd (values_of sample_deserialize
          (stub_cache (None, None) (None, None)
             [OnData \<lparr>getValue_asU8 = [255]\<rparr>, OnData \<lparr>getValue_asU8 = [7]\<rparr>, OnError unavailable]
             [OnData \<lparr>getKey_asU8 = [1], getEntryValue_asU8 = [7]\<rparr>, OnError unavailable])
          under_40) = Rejected unavailable
   \<and> snd (entrySet
          (stub_cache (None, None) (None, None)
             [OnData \<lparr>getValue_asU8 = [255]\<rparr>, OnData \<lparr>getValue_asU8 = [7]\<rparr>, OnError unavailable]
             [OnData \<lparr>getKey_asU8 = [1], getEntryValue_asU8 = [7]\<rparr>, OnError unavailable])
          under_40) = Rejected unavailable
   \<and> snd (keySet sample_deserialize
          (stub_cache (None, None) (None, None)
             [OnData \<lparr>getValue_asU8 = [255]\<rparr>, OnData \<lparr>getValue_asU8 = [7]\<rparr>, OnError unavailable]
             [OnData \<lparr>getKey_asU8 = [1], getEntryValue_asU8 = [7]\<rparr>, OnError unavailable])
          under_40) = Rejected unavailable"
  using stream_error_rejects
    [of under_40
        "stub_cache (None, None) (None, None)
           [OnData \<lparr>getValue_asU8 = [255]\<rparr>, OnData \<lparr>getValue_asU8 = [7]\<rparr>, OnError unavailable]
           [OnData \<lparr>getKey_asU8 = [1], getEntryValue_asU8 = [7]\<rparr>, OnError unavailable]"
        "[\<lparr>getValue_asU8 = [255]\<rparr>, \<lparr>getValue_asU8 = [7]\<rparr>]" unavailable "[]" sample_deserialize
        "[\<lparr>getKey_asU8 = [1], getEntryValue_asU8 = [7]\<rparr>]" "[]"
        "[\<lparr>getValue_asU8 = [255]\<rparr>, \<lparr>getValue_asU8 = [7]\<rparr>]"]
  by (simp add: stub_cache_def stub_service_def under_40_def LessFilter_def construct_def)

lemma page_requests_step:
  "page_requests (Suc fuel) np co ck =
     fst (np ck) #
     (if list_ex is_error (snd (np ck)) \<or> cookie_empty (co (snd (np ck))) then []
      else page_requests fuel np co (co (snd (np ck))))"
  by (simp split: prod.splits)

lemma page_requests_chain:
  "Suc i < length (page_requests fuel np co ck) \<Longrightarrow>
   \<exists>c. page_requests fuel np co ck ! i = fst (np c)
       \<and> page_requests fuel np co ck ! Suc i = fst (np (co (snd (np c))))"
proof (induction fuel arbitrary: ck i)
  case 0
  then show ?case by simp
next
  case (Suc fuel)
  let ?ck' = "co (snd (np ck))"
  from Suc.prems have go: "\<not> (list_ex is_error (snd (np ck)) \<or> cookie_empty ?ck')"
    by (auto simp add: page_requests_step simp del: page_requests.simps(2) split: if_splits)
  then have unfold: "page_requests (Suc fuel) np co ck = fst (np ck) # page_requests fuel np co ?ck'"
    by (simp add: page_requests_step del: page_requests.simps(2))
  show ?case
  proof (cases i)
    case 0
    from Suc.prems unfold have "page_requests fuel np co ?ck' \<noteq> []" by auto
    then obtain fuel' where "fuel = Suc fuel'" by (cases fuel) auto
    then have "page_requests fuel np co ?ck' ! 0 = fst (np ?ck')"
      by (simp add: page_requests_step del: page_requests.simps(2))
    with 0 unfold show ?thesis by auto
  next
    case (Suc j)
    with Suc.prems unfold have "Suc j < length (page_requests fuel np co ?ck')" by simp
    from Suc.IH [OF this] Suc unfold show ?thesis by simp
  qed
qed

lemma page_requests_calls:
  "c \<in> set (page_requests fuel np co ck) \<Longrightarrow> \<exists>ck'. c = fst (np ck')"
  by (induction fuel arbitrary: ck)
    (auto simp add: page_requests_step simp del: page_requests.simps(2) split: if_splits)

lemma paged_iteration:
  "(\<forall>c \<in> set (page_requests fuel np co NoCookie). \<exists>ck. c = fst (np ck))
   \<and> (0 < fuel \<longrightarrow> take 1 (page_requests fuel np co NoCookie) = [fst (np NoCookie)])
   \<and> (\<forall>i. Suc i < length (page_requests fuel np co NoCookie) \<longrightarrow>
         (\<exists>ck. page_requests fuel np co NoCookie ! i = fst (np ck)
             \<and> page_requests fuel np co NoCookie ! Suc i = fst (np (co (snd (np ck))))))
   \<and> (1 < fuel \<and> \<not> list_ex is_error (snd (np NoCookie)) \<and> \<not> cookie_empty (co (snd (np NoCookie)))
        \<longrightarrow> take 2 (page_requests fuel np co NoCookie) =
              [fst (np NoCookie), fst (np (co (snd (np NoCookie))))])"
proof (intro conjI)
  show "\<forall>c \<in> set (page_requests fuel np co NoCookie). \<exists>ck. c = fst (np ck)"
    using page_requests_calls [of _ fuel np co NoCookie] by blast
  show "0 < fuel \<longrightarrow> take 1 (page_requests fuel np co NoCookie) = [fst (np NoCookie)]"
    by (cases fuel) (simp_all add: page_requests_step del: page_requests.simps(2))
  show "\<forall>i. Suc i < length (page_requests fuel np co NoCookie) \<longrightarrow>
         (\<exists>ck. page_requests fuel np co NoCookie ! i = fst (np ck)
             \<and> page_requests fuel np co NoCookie ! Suc i = fst (np (co (snd (np ck)))))"
    using page_requests_chain [of _ fuel np co NoCookie] by blast
  show "1 < fuel \<and> \<not> list_ex is_error (snd (np NoCookie)) \<and> \<not> cookie_empty (co (snd (np NoCookie)))
        \<longrightarrow> take 2 (page_requests fuel np co NoCookie) =
              [fst (np NoCookie), fst (np (co (snd (np NoCookie))))]"
  proof (cases fuel)
    case 0
    then show ?thesis by simp
  next
    case (Suc m)
    show ?thesis
    proof (cases m)
      case 0
      with Suc show ?thesis by simp
    next
      case (Suc k)
      with \<open>fuel = Suc m\<close> show ?thesis
        by (simp add: page_requests_step numeral_2_eq_2 del: page_requests.simps(2))
    qed
  qed
qed

text \<open>
  C5. With a filter, \<open>keySet\<close>, \<open>entrySet\<close> and \<open>values\<close> each issue exactly one
  streaming call, for the request of that filter, and no page request. Without an
  argument they issue no call and resolve with the streamed collection (KeySet, EntrySet,
  ValueSet) on the client. \<open>nextKeySetPage\<close> and \<open>nextEntrySetPage\<close> send the cookie they
  are given in a page request for the cache. Iterating any of the three collections
  issues such page requests only: the first carries no cookie, each further one the cookie
  of the page completed before it, and a first page that completes without error and with
  a cookie that is not empty is followed by the request for the second.
\<close>

theorem filtered_one_shot_unfiltered_paged:
  "(truthy f \<longrightarrow>
      fst (keySet d self f) = [KeySetCall (KeySetRequest (cacheName self) f)]
      \<and> fst (entrySet self f) = [EntrySetCall (EntrySetRequest (cacheName self) f)]
      \<and> fst (values_of d self f) = [ValuesCall (ValuesRequest (cacheName self) f)]
      \<and> (\<forall>c \<in> set (fst (keySet d self f) @ fst (entrySet self f) @ fst (values_of d self f)).
            page_cookie c = None))
   \<and> (\<not> truthy a \<longrightarrow>
      keySet d self a = ([], Resolved (KeySet self))
      \<and> entrySet self a = ([], Resolved (EntrySet self))
      \<and> values_of d self a = ([], Resolved (ValueSet self)))
   \<and> (nextKeySetPage self ck =
        (NextKeySetPageCall (PageRequest (cacheName self) ck),
         rpc_nextKeySetPage (client self) (PageRequest (cacheName self) ck))
      \<and> nextEntrySetPage self ck =
        (NextEntrySetPageCall (PageRequest (cacheName self) ck),
         rpc_nextEntrySetPage (client self) (PageRequest (cacheName self) ck)))
   \<and> ((\<forall>c \<in> set (iterate_calls fuel kc ec (KeySet self :: jsval promise collection)).
          \<exists>ck. c = fst (nextKeySetPage self ck))
      \<and> (0 < fuel \<longrightarrow>
            take 1 (iterate_calls fuel kc ec (KeySet self :: jsval promise collection)) =
              [fst (nextKeySetPage self NoCookie)])
      \<and> (\<forall>i. Suc i < length (iterate_calls fuel kc ec (KeySet self :: jsval promise collection)) \<longrightarrow>
            (\<exists>ck. iterate_calls fuel kc ec (KeySet self :: jsval promise collection) ! i =
                    fst (nextKeySetPage self ck)
                \<and> iterate_calls fuel kc ec (KeySet self :: jsval promise collection) ! Suc i =
                    fst (nextKeySetPage self (kc (snd (nextKeySetPage self ck))))))
      \<and> (1 < fuel \<and> \<not> list_ex is_error (snd (nextKeySetPage self NoCookie))
            \<and> \<not> cookie_empty (kc (snd (nextKeySetPage self NoCookie)))
          \<longrightarrow> take 2 (iterate_calls fuel kc ec (KeySet self :: jsval promise collection)) =
                [fst (nextKeySetPage self NoCookie),
                 fst (nextKeySetPage self (kc (snd (nextKeySetPage self NoCookie))))]))
   \<and> ((\<forall>c \<in> set (iterate_calls fuel kc ec (EntrySet self :: NamedCacheEntry promise collection)).
          \<exists>ck. c = fst (nextEntrySetPage self ck))
      \<and> (0 < fuel \<longrightarrow>
            take 1 (iterate_calls fuel kc ec (EntrySet self :: NamedCacheEntry promise collection)) =
              [fst (nextEntrySetPage self NoCookie)])
      \<and> (\<forall>i. Suc i < length (iterate_calls fuel kc ec (EntrySet self :: NamedCacheEntry promise collection)) \<longrightarrow>
            (\<exists>ck. iterate_calls fuel kc ec (EntrySet self :: NamedCacheEntry promise collection) ! i =
                    fst (nextEntrySetPage self ck)
                \<and> iterate_calls fuel kc ec (EntrySet self :: NamedCacheEntry promise collection) ! Suc i =
                    fst (nextEntrySetPage self (ec (snd (nextEntrySetPage self ck))))))
      \<and> (1 < fuel \<and> \<not> list_ex is_error (snd (nextEntrySetPage self NoCookie))
            \<and> \<not> cookie_empty (ec (snd (nextEntrySetPage self NoCookie)))
          \<longrightarrow> take 2 (iterate_calls fuel kc ec (EntrySet self :: NamedCacheEntry promise collection)) =
                [fst (nextEntrySetPage self NoCookie),
                 fst (nextEntrySetPage self (ec (snd (nextEntrySetPage self NoCookie))))]))
   \<and> ((\<forall>c \<in> set (iterate_calls fuel kc ec (ValueSet self :: jsval promise collection)).
          \<exists>ck. c = fst (nextEntrySetPage self ck))
      \<and> (0 < fuel \<longrightarrow>
            take 1 (iterate_calls fuel kc ec (ValueSet self :: jsval promise collection)) =
              [fst (nextEntrySetPage self NoCookie)])
      \<and> (\<forall>i. Suc i < length (iterate_calls fuel kc ec (ValueSet self :: jsval promise collection)) \<longrightarrow>
            (\<exists>ck. iterate_calls fuel kc ec (ValueSet self :: jsval promise collection) ! i =
                    fst (nextEntrySetPage self ck)
                \<and> iterate_calls fuel kc ec (ValueSet self :: jsval promise collection) ! Suc i =
                    fst (nextEntrySetPage self (ec (snd (nextEntrySetPage self ck))))))
      \<and> (1 < fuel \<and> \<not> list_ex is_error (snd (nextEntrySetPage self NoCookie))
            \<and> \<not> cookie_empty (ec (snd (nextEntrySetPage self NoCookie)))
          \<longrightarrow> take 2 (iterate_calls fuel kc ec (ValueSet self :: jsval promise collection)) =
                [fst (nextEntrySetPage self NoCookie),
                 fst (nextEntrySetPage self (ec (snd (nextEntrySetPage self NoCookie))))]))"
proof -
  have one_shot: "(truthy f \<longrightarrow>
      fst (keySet d self f) = [KeySetCall (KeySetRequest (cacheName self) f)]
      \<and> fst (entrySet self f) = [EntrySetCall (EntrySetRequest (cacheName self) f)]
      \<and> fst (values_of d self f) = [ValuesCall (ValuesRequest (cacheName self) f)]
      \<and> (\<forall>c \<in> set (fst (keySet d self f) @ fst (entrySet self f) @ fst (values_of d self f)).
            page_cookie c = None))"
    by (simp add: keySet_def entrySet_def values_of_def Let_def)
  have unscoped: "(\<not> truthy a \<longrightarrow>
      keySet d self a = ([], Resolved (KeySet self))
      \<and> entrySet self a = ([], Resolved (EntrySet self))
      \<and> values_of d self a = ([], Resolved (ValueSet self)))"
    by (simp add: keySet_def entrySet_def values_of_def)
  have pins: "(nextKeySetPage self ck =
        (NextKeySetPageCall (PageRequest (cacheName self) ck),
         rpc_nextKeySetPage (client self) (PageRequest (cacheName self) ck))
      \<and> nextEntrySetPage self ck =
        (NextEntrySetPageCall (PageRequest (cacheName self) ck),
         rpc_nextEntrySetPage (client self) (PageRequest (cacheName self) ck)))"
    by (simp add: nextKeySetPage_def nextEntrySetPage_def Let_def)
  have k: "\<And>s. iterate_calls fuel kc ec (KeySet s :: jsval promise collection) =
      page_requests fuel (nextKeySetPage s) kc NoCookie"
    and e: "\<And>s. iterate_calls fuel kc ec (EntrySet s :: NamedCacheEntry promise collection) =
      page_requests fuel (nextEntrySetPage s) ec NoCookie"
    and v: "\<And>s. iterate_calls fuel kc ec (ValueSet s :: jsval promise collection) =
      page_requests fuel (nextEntrySetPage s) ec NoCookie"
    by (simp_all add: iterate_calls_def)
  have keys: "((\<forall>c \<in> set (iterate_calls fuel kc ec (KeySet self :: jsval promise collection)).
          \<exists>ck. c = fst (nextKeySetPage self ck))
      \<and> (0 < fuel \<longrightarrow>
            take 1 (iterate_calls fuel kc ec (KeySet self :: jsval promise collection)) =
              [fst (nextKeySetPage self NoCookie)])
      \<and> (\<forall>i. Suc i < length (iterate_calls fuel kc ec (KeySet self :: jsval promise collection)) \<longrightarrow>
            (\<exists>ck. iterate_calls fuel kc ec (KeySet self :: jsval promise collection) ! i =
                    fst (nextKeySetPage self ck)
                \<and> iterate_calls fuel kc ec (KeySet self :: jsval promise collection) ! Suc i =
                    fst (nextKeySetPage self (kc (snd (nextKeySetPage self ck))))))
      \<and> (1 < fuel \<and> \<not> list_ex is_error (snd (nextKeySetPage self NoCookie))
            \<and> \<not> cookie_empty (kc (snd (nextKeySetPage self NoCookie)))
          \<longrightarrow> take 2 (iterate_calls fuel kc ec (KeySet self :: jsval promise collection)) =
                [fst (nextKeySetPage self NoCookie),
                 fst (nextKeySetPage self (kc (snd (nextKeySetPage self NoCookie))))]))"
    unfolding k by (rule paged_iteration)
  have entries: "((\<forall>c \<in> set (iterate_calls fuel kc ec (EntrySet self :: NamedCacheEntry promise collection)).
          \<exists>ck. c = fst (nextEntrySetPage self ck))
      \<and> (0 < fuel \<longrightarrow>
            take 1 (iterate_calls fuel kc ec (EntrySet self :: NamedCacheEntry promise collection)) =
              [fst (nextEntrySetPage self NoCookie)])
      \<and> (\<forall>i. Suc i < length (iterate_calls fuel kc ec (EntrySet self :: NamedCacheEntry promise collection)) \<longrightarrow>
            (\<exists>ck. iterate_calls fuel kc ec (EntrySet self :: NamedCacheEntry promise collection) ! i =
                    fst (nextEntrySetPage self ck)
                \<and> iterate_calls fuel kc ec (EntrySet self :: NamedCacheEntry promise collection) ! Suc i =
                    fst (nextEntrySetPage self (ec (snd (nextEntrySetPage self ck))))))
      \<and> (1 < fuel \<and> \<not> list_ex is_error (snd (nextEntrySetPage self NoCookie))
            \<and> \<not> cookie_empty (ec (snd (nextEntrySetPage self NoCookie)))
          \<longrightarrow> take 2 (iterate_calls fuel kc ec (EntrySet self :: NamedCacheEntry promise collection)) =
                [fst (nextEntrySetPage self NoCookie),
                 fst (nextEntrySetPage self (ec (snd (nextEntrySetPage self NoCookie))))]))"
    unfolding e by (rule paged_iteration)
  have vals: "((\<forall>c \<in> set (iterate_calls fuel kc ec (ValueSet self :: jsval promise collection)).
          \<exists>ck. c = fst (nextEntrySetPage self ck))
      \<and> (0 < fuel \<longrightarrow>
            take 1 (iterate_calls fuel kc ec (ValueSet self :: jsval promise collection)) =
              [fst (nextEntrySetPage self NoCookie)])
      \<and> (\<forall>i. Suc i < length (iterate_calls fuel kc ec (ValueSet self :: jsval promise collection)) \<longrightarrow>
            (\<exists>ck. iterate_calls fuel kc ec (ValueSet self :: jsval promise collection) ! i =
                    fst (nextEntrySetPage self ck)
                \<and> iterate_calls fuel kc ec (ValueSet self :: jsval promise collection) ! Suc i =
                    fst (nextEntrySetPage self (ec (snd (nextEntrySetPage self ck))))))
      \<and> (1 < fuel \<and> \<not> list_ex is_error (snd (nextEntrySetPage self NoCookie))
            \<and> \<not> cookie_empty (ec (snd (nextEntrySetPage self NoCookie)))
          \<longrightarrow> take 2 (iterate_calls fuel kc ec (ValueSet self :: jsval promise collection)) =
                [fst (nextEntrySetPage self NoCookie),
                 fst (nextEntrySetPage self (ec (snd (nextEntrySetPage self NoCookie))))]))"
    unfolding v by (rule paged_iteration)
  show ?thesis
    by (rule conjI [OF one_shot conjI [OF unscoped conjI [OF pins conjI [OF keys
          conjI [OF entries vals]]]]])
qed

text \<open>
  One filtered call, the unfiltered promise, and the page requests of the three
  collections on a server of two pages.
\<close>

theorem filtered_one_shot_unfiltered_paged_witness:
  "fst (keySet sample_deserialize paged_cache under_40) =
       [KeySetCall (KeySetRequest ''people'' under_40)]
   \<and> keySet sample_deserialize paged_cache JUndefined = ([], Resolved (KeySet paged_cache))
   \<and> iterate_calls 5 first_as_cookie short_page_cookie
         (KeySet paged_cache :: jsval promise collection) =
       [NextKeySetPageCall (PageRequest ''people'' NoCookie),
        NextKeySetPageCall (PageRequest ''people'' (BytesCookie [1]))]
   \<and> iterate_calls 5 first_as_cookie short_page_cookie
         (EntrySet paged_cache :: NamedCacheEntry promise collection) =
       [NextEntrySetPageCall (PageRequest ''people'' NoCookie),
        NextEntrySetPageCall (PageRequest ''people'' (TextCookie ''page 2''))]
   \<and> iterate_calls 5 first_as_cookie short_page_cookie
         (ValueSet paged_cache :: jsval promise collection) =
       [NextEntrySetPageCall (PageRequest ''people'' NoCookie),
        NextEntrySetPageCall (PageRequest ''people'' (TextCookie ''page 2''))]"
  using filtered_one_shot_unfiltered_paged
    [of under_40 sample_deserialize paged_cache JUndefined NoCookie 5 first_as_cookie
        short_page_cookie]
  by (simp add: paged_cache_def stub_service_def under_40_def LessFilter_def construct_def
      iterate_calls_def nextKeySetPage_def nextEntrySetPage_def two_key_pages_def
      two_entry_pages_def first_as_cookie_def short_page_cookie_def numeral_eq_Suc keySet_def)

section \<open>Properties of the expression nodes\<close>

lemma map_of_assign: "map_of (assign k v ps) k' = (if k' = k then Some v else map_of ps k')"
  by (induction ps) auto

lemma field_construct_snoc:
  "field k' (construct (ws @ [(k, v)])) = (if k' = k then Some v else field k' (construct ws))"
  by (simp add: field_def construct_def map_of_assign)

lemma comparison_node:
  "construct (ComparisonFilter_init clz e v) =
     JObj [(''@class'', JStr clz), (''extractor'', e), (''value'', v)]"
  by (simp add: construct_def ComparisonFilter_init_def Filter_init_def)

lemma comparison_not_KeyAssociated:
  "clz \<noteq> ''KeyAssociatedFilter'' \<Longrightarrow> \<not> is_KeyAssociated (construct (ComparisonFilter_init clz e v))"
  by (simp add: comparison_node is_KeyAssociated_def field_def)

lemma between_retagged:
  assumes b: "b = construct (ws @ [(''@class'', JStr t), (''from'', y), (''to'', z)])"
  shows "field ''@class'' b = Some (JStr t) \<and> field ''from'' b = Some y \<and> field ''to'' b = Some z
     \<and> (\<forall>k. k \<notin> {''@class'', ''from'', ''to''} \<longrightarrow> field k b = field k (construct ws))"
proof -
  have split: "ws @ [(''@class'', JStr t), (''from'', y), (''to'', z)] =
      ((ws @ [(''@class'', JStr t)]) @ [(''from'', y)]) @ [(''to'', z)]"
    by simp
  show ?thesis
    unfolding b split by (simp only: field_construct_snoc) simp
qed

text \<open>
  C1 (amended). Whatever node the AndFilter constructor builds from the two comparison
  filters, \<open>between(e, y, z)\<close> is that node with the type tag replaced by the tag of
  BetweenFilter and the fields \<open>from = y\<close> and \<open>to = z\<close> added; every other field is the
  field of \<open>and(greater(e, y), less(e, z))\<close> with default bounds, and of
  \<open>and(greaterEquals(e, y), lessEquals(e, z))\<close> with both bounds inclusive.
\<close>

theorem between_is_superclass_node_retagged:
  "(super_init (GreaterFilter I e y) (LessFilter I e z) = Inr ws \<longrightarrow>
      (\<exists>b. BetweenFilter super_init I e y z None None = Inr b
         \<and> field ''@class'' b = Some (JStr (filterName I ''BetweenFilter''))
         \<and> field ''from'' b = Some y \<and> field ''to'' b = Some z
         \<and> (\<forall>k. k \<notin> {''@class'', ''from'', ''to''} \<longrightarrow> field k b = field k (construct ws))))
   \<and> (super_init (GreaterEqualsFilter I e y) (LessEqualsFilter I e z) = Inr ws' \<longrightarrow>
      (\<exists>b. BetweenFilter super_init I e y z (Some True) (Some True) = Inr b
         \<and> field ''@class'' b = Some (JStr (filterName I ''BetweenFilter''))
         \<and> field ''from'' b = Some y \<and> field ''to'' b = Some z
         \<and> (\<forall>k. k \<notin> {''@class'', ''from'', ''to''} \<longrightarrow> field k b = field k (construct ws'))))"
proof (intro conjI impI)
  assume s: "super_init (GreaterFilter I e y) (LessFilter I e z) = Inr ws"
  let ?b = "construct (ws @ [(''@class'', JStr (filterName I ''BetweenFilter'')), (''from'', y), (''to'', z)])"
  have "BetweenFilter super_init I e y z None None = Inr ?b"
    using s by (simp add: BetweenFilter_def BetweenFilter_init_def built_def or_default_def)
  with between_retagged [of ?b ws "filterName I ''BetweenFilter''" y z]
  show "\<exists>b. BetweenFilter super_init I e y z None None = Inr b
         \<and> field ''@class'' b = Some (JStr (filterName I ''BetweenFilter''))
         \<and> field ''from'' b = Some y \<and> field ''to'' b = Some z
         \<and> (\<forall>k. k \<notin> {''@class'', ''from'', ''to''} \<longrightarrow> field k b = field k (construct ws))"
    by blast
next
  assume s: "super_init (GreaterEqualsFilter I e y) (LessEqualsFilter I e z) = Inr ws'"
  let ?b = "construct (ws' @ [(''@class'', JStr (filterName I ''BetweenFilter'')), (''from'', y), (''to'', z)])"
  have "BetweenFilter super_init I e y z (Some True) (Some True) = Inr ?b"
    using s by (simp add: BetweenFilter_def BetweenFilter_init_def built_def or_default_def)
  with between_retagged [of ?b ws' "filterName I ''BetweenFilter''" y z]
  show "\<exists>b. BetweenFilter super_init I e y z (Some True) (Some True) = Inr b
         \<and> field ''@class'' b = Some (JStr (filterName I ''BetweenFilter''))
         \<and> field ''from'' b = Some y \<and> field ''to'' b = Some z
         \<and> (\<forall>k. k \<notin> {''@class'', ''from'', ''to''} \<longrightarrow> field k b = field k (construct ws'))"
    by blast
qed

text \<open>The two nodes for the bounds 18 and 65 on \<open>age\<close>, with the composite of the spec.\<close>

theorem between_is_superclass_node_retagged_witness:
  "AndFilter sample_internal (GreaterFilter sample_internal age (JNum 18))
       (LessFilter sample_internal age (JNum 65)) =
     Inr (JObj [(''@class'', JStr ''filter.AndFilter''),
                (''children'', JArr [GreaterFilter sample_internal age (JNum 18),
                                     LessFilter sample_internal age (JNum 65)])])
   \<and> BetweenFilter (AndFilter_init sample_internal) sample_internal age (JNum 18) (JNum 65) None None =
     Inr (JObj [(''@class'', JStr ''filter.BetweenFilter''),
                (''children'', JArr [GreaterFilter sample_internal age (JNum 18),
                                     LessFilter sample_internal age (JNum 65)]),
                (''from'', JNum 18), (''to'', JNum 65)])
   \<and> BetweenFilter (AndFilter_init sample_internal) sample_internal age (JNum 18) (JNum 65)
       (Some True) (Some True) =
     Inr (JObj [(''@class'', JStr ''filter.BetweenFilter''),
                (''children'', JArr [GreaterEqualsFilter sample_internal age (JNum 18),
                                     LessEqualsFilter sample_internal age (JNum 65)]),
                (''from'', JNum 18), (''to'', JNum 65)])"
  using between_is_superclass_node_retagged
    [of "AndFilter_init sample_internal" sample_internal age "JNum 18" "JNum 65"
        "[(''@class'', JStr ''filter.AndFilter''),
          (''children'', JArr [GreaterFilter sample_internal age (JNum 18),
                               LessFilter sample_internal age (JNum 65)])]"
        "[(''@class'', JStr ''filter.AndFilter''),
          (''children'', JArr [GreaterEqualsFilter sample_internal age (JNum 18),
                               LessEqualsFilter sample_internal age (JNum 65)])]"]
  by (simp add: sample_internal_def construct_def field_def Filter_init_def
      ComparisonFilter_init_def LessFilter_init_def LessFilter_def LessEqualsFilter_def
      GreaterFilter_def GreaterEqualsFilter_def composite_init_def AndFilter_init_def
      built_def BetweenFilter_init_def is_KeyAssociated_def or_default_def AndFilter_def BetweenFilter_def)

text \<open>
  C1 as stated fails: the node of \<open>between\<close> is not the node of \<open>and(greater, less)\<close>; its
  type tag is the one of BetweenFilter, not the composite's.
\<close>

theorem between_tag_counterexample:
  "BetweenFilter (AndFilter_init sample_internal) sample_internal age (JNum 18) (JNum 65) None None
     \<noteq> AndFilter sample_internal (GreaterFilter sample_internal age (JNum 18))
           (LessFilter sample_internal age (JNum 65))
   \<and> map_sum id (field ''@class'')
        (BetweenFilter (AndFilter_init sample_internal) sample_internal age (JNum 18) (JNum 65) None None)
      = Inr (Some (JStr ''filter.BetweenFilter''))
   \<and> map_sum id (field ''@class'')
        (AndFilter sample_internal (GreaterFilter sample_internal age (JNum 18))
           (LessFilter sample_internal age (JNum 65)))
      = Inr (Some (JStr ''filter.AndFilter''))"
  by (simp add: sample_internal_def construct_def field_def Filter_init_def
      ComparisonFilter_init_def LessFilter_init_def LessFilter_def LessEqualsFilter_def
      GreaterFilter_def GreaterEqualsFilter_def composite_init_def AndFilter_init_def
      built_def BetweenFilter_init_def is_KeyAssociated_def or_default_def AndFilter_def BetweenFilter_def)


lemma tag_Like:
  "tag_writes (LikeFilter_init I e p esc ic) = [JStr (filterName I ''LikeFilter'')]
   \<and> field ''@class'' (LikeFilter I e p esc ic) = Some (JStr (filterName I ''LikeFilter''))"
  by (cases esc)
    (simp_all add: LikeFilter_def LikeFilter_init_def ComparisonFilter_init_def Filter_init_def
      tag_writes_def field_def construct_def or_default_def Let_def)

lemma tag_Between:
  assumes "super_init g l = Inr ws"
    and "BetweenFilter_init super_init I e y z lo hi =
           (case super_init g l of Inl x \<Rightarrow> Inl x
            | Inr ws \<Rightarrow> Inr (ws @ [(''@class'', JStr (filterName I ''BetweenFilter'')), (''from'', y), (''to'', z)]))"
  shows "\<exists>ws'. BetweenFilter_init super_init I e y z lo hi = Inr ws'
     \<and> tag_writes ws' = tag_writes ws @ [JStr (filterName I ''BetweenFilter'')]
     \<and> field ''@class'' (construct ws') = Some (JStr (filterName I ''BetweenFilter''))"
  using assms between_retagged [of _ ws "filterName I ''BetweenFilter''" y z]
  by (simp add: tag_writes_def)

text \<open>
  C9 (amended). The construction of a node assigns its type tag exactly once, except the
  construction of a BetweenFilter, which assigns it once more than the AndFilter
  constructor it runs first: the last assignment is the tag of BetweenFilter. After
  construction the tag of a LessFilter, a LikeFilter, a BetweenFilter, the Get processor
  and the DistinctValues and ComparableMin aggregators is the name \<open>internal\<close> gives the
  class. What takes a constructed node afterwards keeps it as it is, the tag with it: the
  key-association wrapper its filter, the comparison filters their extractor, the
  filter-scoped requests their filter.
\<close>

theorem tags_assigned_in_construction:
  "(length (tag_writes (KeyAssociatedFilter_init flt h)) = 1
    \<and> tag_writes (LessFilter_init I e v) = [JStr (filterName I ''LessFilter'')]
    \<and> tag_writes (LikeFilter_init I e p esc ic) = [JStr (filterName I ''LikeFilter'')]
    \<and> tag_writes (GetProcessor_init I) = [JStr (processorName I ''Get'')]
    \<and> tag_writes (DistinctValuesAggregator_init I x) = [JStr (aggregatorName I ''DistinctValues'')]
    \<and> tag_writes (MinAggregator_init I x) = [JStr (aggregatorName I ''ComparableMin'')])
   \<and> (field ''@class'' (LessFilter I e v) = Some (JStr (filterName I ''LessFilter''))
    \<and> field ''@class'' (LikeFilter I e p esc ic) = Some (JStr (filterName I ''LikeFilter''))
    \<and> field ''@class'' (GetProcessor I) = Some (JStr (processorName I ''Get''))
    \<and> field ''@class'' (DistinctValuesAggregator I x) = Some (JStr (aggregatorName I ''DistinctValues''))
    \<and> field ''@class'' (MinAggregator I x) = Some (JStr (aggregatorName I ''ComparableMin'')))
   \<and> (super_init
          (if or_default False lo then GreaterEqualsFilter I e y else GreaterFilter I e y)
          (if or_default False hi then LessEqualsFilter I e z else LessFilter I e z) = Inr ws
        \<longrightarrow> (\<exists>ws'. BetweenFilter_init super_init I e y z lo hi = Inr ws'
               \<and> tag_writes ws' = tag_writes ws @ [JStr (filterName I ''BetweenFilter'')]
               \<and> field ''@class'' (construct ws') = Some (JStr (filterName I ''BetweenFilter''))))
   \<and> (field ''filter'' (KeyAssociatedFilter flt h) = Some flt
    \<and> field ''extractor'' (LessFilter I e v) = Some e
    \<and> field ''extractor'' (LikeFilter I e p esc ic) = Some e
    \<and> (truthy f \<longrightarrow>
          fst (keySet d self f) = [KeySetCall (KeySetRequest (cacheName self) f)]
          \<and> fst (entrySet self f) = [EntrySetCall (EntrySetRequest (cacheName self) f)]
          \<and> fst (values_of d self f) = [ValuesCall (ValuesRequest (cacheName self) f)]))"
proof -
  have once:
    "length (tag_writes (KeyAssociatedFilter_init flt h)) = 1
     \<and> tag_writes (LessFilter_init I e v) = [JStr (filterName I ''LessFilter'')]
     \<and> tag_writes (LikeFilter_init I e p esc ic) = [JStr (filterName I ''LikeFilter'')]
     \<and> tag_writes (GetProcessor_init I) = [JStr (processorName I ''Get'')]
     \<and> tag_writes (DistinctValuesAggregator_init I x) = [JStr (aggregatorName I ''DistinctValues'')]
     \<and> tag_writes (MinAggregator_init I x) = [JStr (aggregatorName I ''ComparableMin'')]"
    using tag_Like [of I e p esc ic]
    by (simp add: tag_writes_def Filter_init_def ComparisonFilter_init_def
        EntryProcessor_init_def AbstractDoubleAggregator_init_def KeyAssociatedFilter_init_def
        LessFilter_init_def GetProcessor_init_def DistinctValuesAggregator_init_def
        MinAggregator_init_def)
  have final:
    "field ''@class'' (LessFilter I e v) = Some (JStr (filterName I ''LessFilter''))
     \<and> field ''@class'' (LikeFilter I e p esc ic) = Some (JStr (filterName I ''LikeFilter''))
     \<and> field ''@class'' (GetProcessor I) = Some (JStr (processorName I ''Get''))
     \<and> field ''@class'' (DistinctValuesAggregator I x) = Some (JStr (aggregatorName I ''DistinctValues''))
     \<and> field ''@class'' (MinAggregator I x) = Some (JStr (aggregatorName I ''ComparableMin''))"
    using tag_Like [of I e p esc ic]
    by (simp add: field_def construct_def Filter_init_def ComparisonFilter_init_def
        EntryProcessor_init_def AbstractDoubleAggregator_init_def LessFilter_init_def
        LessFilter_def GetProcessor_init_def GetProcessor_def DistinctValuesAggregator_init_def
        DistinctValuesAggregator_def MinAggregator_init_def MinAggregator_def)
  have between:
    "super_init
          (if or_default False lo then GreaterEqualsFilter I e y else GreaterFilter I e y)
          (if or_default False hi then LessEqualsFilter I e z else LessFilter I e z) = Inr ws
        \<longrightarrow> (\<exists>ws'. BetweenFilter_init super_init I e y z lo hi = Inr ws'
               \<and> tag_writes ws' = tag_writes ws @ [JStr (filterName I ''BetweenFilter'')]
               \<and> field ''@class'' (construct ws') = Some (JStr (filterName I ''BetweenFilter'')))"
    by (intro impI, erule tag_Between) (simp add: BetweenFilter_init_def)
  have like_extractor: "field ''extractor'' (LikeFilter I e p esc ic) = Some e"
    by (cases esc)
      (simp_all add: LikeFilter_def LikeFilter_init_def ComparisonFilter_init_def Filter_init_def
        field_def construct_def or_default_def Let_def)
  have kept:
    "field ''filter'' (KeyAssociatedFilter flt h) = Some flt
     \<and> field ''extractor'' (LessFilter I e v) = Some e
     \<and> field ''extractor'' (LikeFilter I e p esc ic) = Some e
     \<and> (truthy f \<longrightarrow>
          fst (keySet d self f) = [KeySetCall (KeySetRequest (cacheName self) f)]
          \<and> fst (entrySet self f) = [EntrySetCall (EntrySetRequest (cacheName self) f)]
          \<and> fst (values_of d self f) = [ValuesCall (ValuesRequest (cacheName self) f)])"
    using like_extractor
    by (simp add: field_def construct_def Filter_init_def ComparisonFilter_init_def
        KeyAssociatedFilter_init_def KeyAssociatedFilter_def LessFilter_init_def LessFilter_def
        keySet_def entrySet_def values_of_def Let_def)
  show ?thesis
    by (rule conjI [OF once conjI [OF final conjI [OF between kept]]])
qed

text \<open>The tags of four nodes under the names of the tests, and two nodes kept as given.\<close>

theorem tags_assigned_in_construction_witness:
  "tag_writes (LessFilter_init sample_internal age (JNum 40)) = [JStr ''filter.LessFilter'']
   \<and> field ''@class'' (GetProcessor sample_internal) = Some (JStr ''processor.Get'')
   \<and> field ''@class'' (MinAggregator sample_internal (JStr ''age'')) = Some (JStr ''aggregator.ComparableMin'')
   \<and> (\<exists>ws'. BetweenFilter_init (AndFilter_init sample_internal) sample_internal age (JNum 18) (JNum 65) None None = Inr ws'
         \<and> tag_writes ws' = [JStr ''filter.AndFilter'', JStr ''filter.BetweenFilter'']
         \<and> field ''@class'' (construct ws') = Some (JStr ''filter.BetweenFilter''))
   \<and> field ''filter'' (KeyAssociatedFilter under_40 (JNum 10)) = Some under_40
   \<and> fst (keySet sample_deserialize (stub_cache (None, None) (None, None) [] []) under_40) =
       [KeySetCall (KeySetRequest ''people'' under_40)]"
  using tags_assigned_in_construction
    [of under_40 "JNum 10" sample_internal age "JNum 40" "''a%''" None None "JStr ''age''"
        "AndFilter_init sample_internal" None "JNum 18" None "JNum 65"
        "[(''@class'', JStr ''filter.AndFilter''),
          (''children'', JArr [GreaterFilter sample_internal age (JNum 18),
                               LessFilter sample_internal age (JNum 65)])]"
        under_40 sample_deserialize "stub_cache (None, None) (None, None) [] []"]
  by (simp add: sample_internal_def construct_def field_def Filter_init_def
      ComparisonFilter_init_def LessFilter_init_def LessFilter_def LessEqualsFilter_def
      GreaterFilter_def GreaterEqualsFilter_def composite_init_def AndFilter_init_def
      built_def BetweenFilter_init_def is_KeyAssociated_def or_default_def tag_writes_def
      GetProcessor_def GetProcessor_init_def EntryProcessor_init_def
      MinAggregator_def MinAggregator_init_def AbstractDoubleAggregator_init_def
      KeyAssociatedFilter_def KeyAssociatedFilter_init_def under_40_def
      keySet_def stub_cache_def stub_service_def Let_def)

text \<open>
  C9 as stated fails: constructing a BetweenFilter assigns the type tag twice, first the
  tag of AndFilter, then the tag of BetweenFilter.
\<close>

theorem between_tag_assigned_twice_counterexample:
  "map_sum id tag_writes
     (BetweenFilter_init (AndFilter_init sample_internal) sample_internal age (JNum 18) (JNum 65) None None)
   = Inr [JStr ''filter.AndFilter'', JStr ''filter.BetweenFilter'']"
  by (simp add: sample_internal_def construct_def field_def Filter_init_def
      ComparisonFilter_init_def LessFilter_init_def LessFilter_def LessEqualsFilter_def
      GreaterFilter_def GreaterEqualsFilter_def composite_init_def AndFilter_init_def
      built_def BetweenFilter_init_def is_KeyAssociated_def or_default_def tag_writes_def)

text \<open>
  C6. A LikeFilter has the field \<open>escape\<close> exactly when an escape string that is not empty
  was supplied, and then the field is that string; the field is never \<open>null\<close>. The field
  \<open>ignoreCase\<close> is \<open>false\<close> when the argument is left out, and the argument otherwise.
\<close>

theorem like_escape_and_case:
  "(field ''escape'' (LikeFilter I e p esc ic) \<noteq> None) = (\<exists>s. esc = Some s \<and> s \<noteq> [])
   \<and> (esc = Some s \<and> s \<noteq> [] \<longrightarrow> field ''escape'' (LikeFilter I e p esc ic) = Some (JStr s))
   \<and> field ''escape'' (LikeFilter I e p esc ic) \<noteq> Some JNull
   \<and> field ''ignoreCase'' (LikeFilter I e p esc None) = Some (JBool False)
   \<and> field ''ignoreCase'' (LikeFilter I e p esc (Some c)) = Some (JBool c)"
  by (cases esc)
    (auto simp add: LikeFilter_def LikeFilter_init_def ComparisonFilter_init_def Filter_init_def
      field_def construct_def or_default_def Let_def)

text \<open>A LikeFilter with the escape \<open>#\<close>, one with the empty escape, one with none.\<close>

theorem like_escape_and_case_witness:
  "LikeFilter sample_internal age ''a#%'' (Some ''#'') None =
     JObj [(''@class'', JStr ''filter.LikeFilter''), (''extractor'', age), (''value'', JStr ''a#%''),
           (''escape'', JStr ''#''), (''ignoreCase'', JBool False)]
   \<and> LikeFilter sample_internal age ''a%'' (Some []) (Some True) =
     JObj [(''@class'', JStr ''filter.LikeFilter''), (''extractor'', age), (''value'', JStr ''a%''),
           (''ignoreCase'', JBool True)]
   \<and> field ''escape'' (LikeFilter sample_internal age ''a%'' None None) = None"
  using like_escape_and_case [of sample_internal age "''a#%''" "Some ''#''" None "''#''"]
  by (simp add: LikeFilter_def LikeFilter_init_def ComparisonFilter_init_def Filter_init_def
      field_def construct_def or_default_def Let_def sample_internal_def)

text \<open>
  C3 (amended). The constructor of KeyAssociatedFilter checks nothing: it stores any
  filter it is given, a key-association filter included, and never fails. The AndFilter
  constructor that \<open>between\<close> runs is handed two comparison filters, neither of them a
  key-association filter (tag names being distinct from the literal
  \<open>KeyAssociatedFilter\<close>). The composites \<open>and\<close>, \<open>or\<close> and \<open>not\<close>, as the spec models them,
  reject a key-association child with an error.
\<close>

theorem key_association_placement:
  "field ''filter'' (KeyAssociatedFilter flt h) = Some flt
   \<and> field ''hostKey'' (KeyAssociatedFilter flt h) = Some h
   \<and> is_KeyAssociated (KeyAssociatedFilter flt h)
   \<and> ((\<forall>n. filterName I n \<noteq> ''KeyAssociatedFilter'') \<longrightarrow>
        (\<exists>g l. \<not> is_KeyAssociated g \<and> \<not> is_KeyAssociated l
           \<and> (\<forall>super_init.
                 BetweenFilter_init super_init I e y z lo hi =
                   (case super_init g l of
                      Inl x \<Rightarrow> Inl x
                    | Inr ws \<Rightarrow>
                        Inr (ws @ [(''@class'', JStr (filterName I ''BetweenFilter'')),
                                   (''from'', y), (''to'', z)])))))
   \<and> (is_KeyAssociated k \<longrightarrow>
        isl (AndFilter I k f) \<and> isl (AndFilter I f k) \<and> isl (OrFilter I k f)
        \<and> isl (OrFilter I f k) \<and> isl (NotFilter I k))"
proof -
  have wrap: "field ''filter'' (KeyAssociatedFilter flt h) = Some flt
     \<and> field ''hostKey'' (KeyAssociatedFilter flt h) = Some h
     \<and> is_KeyAssociated (KeyAssociatedFilter flt h)"
    by (simp add: KeyAssociatedFilter_def KeyAssociatedFilter_init_def Filter_init_def
        is_KeyAssociated_def field_def construct_def)
  have between: "(\<forall>n. filterName I n \<noteq> ''KeyAssociatedFilter'') \<longrightarrow>
        (\<exists>g l. \<not> is_KeyAssociated g \<and> \<not> is_KeyAssociated l
           \<and> (\<forall>super_init.
                 BetweenFilter_init super_init I e y z lo hi =
                   (case super_init g l of
                      Inl x \<Rightarrow> Inl x
                    | Inr ws \<Rightarrow>
                        Inr (ws @ [(''@class'', JStr (filterName I ''BetweenFilter'')),
                                   (''from'', y), (''to'', z)]))))"
  proof
    assume nc: "\<forall>n. filterName I n \<noteq> ''KeyAssociatedFilter''"
    let ?g = "if or_default False lo then GreaterEqualsFilter I e y else GreaterFilter I e y"
    let ?l = "if or_default False hi then LessEqualsFilter I e z else LessFilter I e z"
    have "\<not> is_KeyAssociated ?g" "\<not> is_KeyAssociated ?l"
      using nc
      by (simp_all add: GreaterEqualsFilter_def GreaterFilter_def LessEqualsFilter_def
          LessFilter_def LessFilter_init_def comparison_not_KeyAssociated)
    moreover have "\<forall>super_init.
                 BetweenFilter_init super_init I e y z lo hi =
                   (case super_init ?g ?l of
                      Inl x \<Rightarrow> Inl x
                    | Inr ws \<Rightarrow>
                        Inr (ws @ [(''@class'', JStr (filterName I ''BetweenFilter'')),
                                   (''from'', y), (''to'', z)]))"
      by (simp add: BetweenFilter_init_def)
    ultimately show "\<exists>g l. \<not> is_KeyAssociated g \<and> \<not> is_KeyAssociated l
           \<and> (\<forall>super_init.
                 BetweenFilter_init super_init I e y z lo hi =
                   (case super_init g l of
                      Inl x \<Rightarrow> Inl x
                    | Inr ws \<Rightarrow>
                        Inr (ws @ [(''@class'', JStr (filterName I ''BetweenFilter'')),
                                   (''from'', y), (''to'', z)])))"
      by blast
  qed
  have composites: "is_KeyAssociated k \<longrightarrow>
        isl (AndFilter I k f) \<and> isl (AndFilter I f k) \<and> isl (OrFilter I k f)
        \<and> isl (OrFilter I f k) \<and> isl (NotFilter I k)"
    by (simp add: AndFilter_def OrFilter_def NotFilter_def AndFilter_init_def OrFilter_init_def
        NotFilter_init_def composite_init_def built_def)
  from wrap between composites show ?thesis by blast
qed

text \<open>
  \<open>and\<close> rejects a key-association filter on \<open>age < 40\<close>; \<open>between\<close> on \<open>age\<close> is built.
\<close>

theorem key_association_placement_witness:
  "AndFilter sample_internal (KeyAssociatedFilter under_40 (JNum 10)) under_40 =
     Inl (InvalidArgument ''key-association filter as a child'')
   \<and> (\<exists>b. BetweenFilter (AndFilter_init sample_internal) sample_internal age (JNum 18) (JNum 65) None None = Inr b)"
  using key_association_placement
    [of under_40 "JNum 10" sample_internal age "JNum 18" "JNum 65" None None
        "KeyAssociatedFilter under_40 (JNum 10)" under_40]
  by (simp add: sample_internal_def construct_def field_def Filter_init_def
      ComparisonFilter_init_def LessFilter_init_def LessFilter_def LessEqualsFilter_def
      GreaterFilter_def GreaterEqualsFilter_def composite_init_def AndFilter_init_def
      built_def BetweenFilter_init_def is_KeyAssociated_def or_default_def under_40_def AndFilter_def
      BetweenFilter_def KeyAssociatedFilter_def KeyAssociatedFilter_init_def)

text \<open>
  C3 as stated fails: a key-association filter is accepted as the inner filter of another
  key-association filter, where it is not the outermost wrapper; nothing is rejected.
\<close>

theorem key_association_nested_counterexample:
  "is_KeyAssociated (KeyAssociatedFilter under_40 (JNum 10))
   \<and> KeyAssociatedFilter (KeyAssociatedFilter under_40 (JNum 10)) (JNum 11) =
       JObj [(''@class'', JStr ''KeyAssociatedFilter''),
             (''filter'', KeyAssociatedFilter under_40 (JNum 10)),
             (''hostKey'', JNum 11)]"
  by (simp add: KeyAssociatedFilter_def KeyAssociatedFilter_init_def Filter_init_def
      is_KeyAssociated_def field_def construct_def)

end
